theory Spec2Isabelle
  imports Complex_Main
begin

section \<open>Strings and numbers\<close>

text \<open>
  A JavaScript string is modelled as a \<^typ>\<open>string\<close>: a list of characters whose code
  units are below 256. A JavaScript number is modelled as an \<^typ>\<open>int\<close> where the
  source only counts or indexes, and as a \<^typ>\<open>real\<close> where it divides or takes a
  square root (scores, ratios, thresholds); rounding to double precision is not modelled.
\<close>

definition isSpace :: "char \<Rightarrow> bool" where
  \<comment> \<open>the class \<open>\s\<close> of a regular expression and the characters removed by \<open>trim()\<close>\<close>
  "isSpace c = (c \<in> set [CHR 0x09, CHR 0x0A, CHR 0x0B, CHR 0x0C, CHR 0x0D, CHR 0x20, CHR 0xA0])"

definition isDigit :: "char \<Rightarrow> bool" where
  \<comment> \<open>the class \<open>\d\<close>\<close>
  "isDigit c = (c \<in> set ''0123456789'')"

definition isLowerAlnum :: "char \<Rightarrow> bool" where
  \<comment> \<open>the class \<open>[a-z0-9]\<close>\<close>
  "isLowerAlnum c = (c \<in> set ''abcdefghijklmnopqrstuvwxyz0123456789'')"

definition isWordChar :: "char \<Rightarrow> bool" where
  \<comment> \<open>the class \<open>\w\<close>, that is \<open>[A-Za-z0-9_]\<close>\<close>
  "isWordChar c = (c \<in> set ''ABCDEFGHIJKLMNOPQRSTUVWXYZabcdefghijklmnopqrstuvwxyz0123456789_'')"

definition toLowerChar :: "char \<Rightarrow> char" where
  \<comment> \<open>\<open>A\<close>..\<open>Z\<close> and the capital letters of Latin-1 (0xC0..0xDE without 0xD7) gain bit 5\<close>
  "toLowerChar c = (let n = (of_char c :: nat) in
     if (65 \<le> n \<and> n \<le> 90) \<or> (192 \<le> n \<and> n \<le> 222 \<and> n \<noteq> 215)
     then (case c of Char b0 b1 b2 b3 b4 b5 b6 b7 \<Rightarrow> Char b0 b1 b2 b3 b4 True b6 b7)
     else c)"

definition toLowerCase :: "string \<Rightarrow> string" where
  "toLowerCase s = map toLowerChar s"

definition trim :: "string \<Rightarrow> string" where
  "trim s = rev (dropWhile isSpace (rev (dropWhile isSpace s)))"

function replaceRuns :: "(char \<Rightarrow> bool) \<Rightarrow> string \<Rightarrow> string \<Rightarrow> string" where
  \<comment> \<open>\<open>s.replace(/[class]+/g, r)\<close>: every maximal run of characters of the class becomes \<open>r\<close>\<close>
  "replaceRuns P r [] = []"
| "replaceRuns P r (c # cs) =
     (if P c then r @ replaceRuns P r (dropWhile P cs) else c # replaceRuns P r cs)"
  by pat_completeness auto
termination
  by (relation "measure (\<lambda>(P, r, s). length s)") (auto simp: less_Suc_eq_le length_dropWhile_le)

function splitRuns :: "(char \<Rightarrow> bool) \<Rightarrow> string \<Rightarrow> string list" where
  \<comment> \<open>\<open>s.split(/[class]+/)\<close>: the pieces between the maximal runs of the class; the
      empty string gives one empty piece\<close>
  "splitRuns P [] = [[]]"
| "splitRuns P (c # cs) =
     (if P c then [] # splitRuns P (dropWhile P cs)
      else (case splitRuns P cs of [] \<Rightarrow> [[c]] | w # ws \<Rightarrow> (c # w) # ws))"
  by pat_completeness auto
termination
  by (relation "measure (\<lambda>(P, s). length s)") (auto simp: less_Suc_eq_le length_dropWhile_le)

fun splitChar :: "char \<Rightarrow> string \<Rightarrow> string list" where
  \<comment> \<open>\<open>s.split(d)\<close> for a one-character separator\<close>
  "splitChar d [] = [[]]"
| "splitChar d (c # cs) =
     (if c = d then [] # splitChar d cs
      else (case splitChar d cs of [] \<Rightarrow> [[c]] | w # ws \<Rightarrow> (c # w) # ws))"

fun joinWith :: "string \<Rightarrow> string list \<Rightarrow> string" where
  \<comment> \<open>\<open>xs.join(sep)\<close>\<close>
  "joinWith sep [] = []"
| "joinWith sep [x] = x"
| "joinWith sep (x # y # ys) = x @ sep @ joinWith sep (y # ys)"

fun startsWith :: "string \<Rightarrow> string \<Rightarrow> bool" where
  \<comment> \<open>\<open>startsWith s t\<close>: \<open>t\<close> is a prefix of \<open>s\<close>\<close>
  "startsWith s [] = True"
| "startsWith [] (d # t) = False"
| "startsWith (c # s) (d # t) = (c = d \<and> startsWith s t)"

fun includesStr :: "string \<Rightarrow> string \<Rightarrow> bool" where
  \<comment> \<open>\<open>s.includes(t)\<close>\<close>
  "includesStr [] t = (t = [])"
| "includesStr (c # s) t = (startsWith (c # s) t \<or> includesStr s t)"

fun indexOfFrom :: "nat \<Rightarrow> string \<Rightarrow> string \<Rightarrow> int" where
  \<comment> \<open>\<open>s.indexOf(t)\<close>, counting from position \<open>i\<close>; -1 when \<open>t\<close> does not occur\<close>
  "indexOfFrom i [] t = (if t = [] then int i else - 1)"
| "indexOfFrom i (c # s) t = (if startsWith (c # s) t then int i else indexOfFrom (Suc i) s t)"

definition indexOf :: "string \<Rightarrow> string \<Rightarrow> int" where
  "indexOf s t = indexOfFrom 0 s t"

definition slice :: "'a list \<Rightarrow> int \<Rightarrow> int \<Rightarrow> 'a list" where
  \<comment> \<open>\<open>s.slice(a, b)\<close>: a negative index counts from the end, both are clamped\<close>
  "slice s a b =
     (let n = int (length s);
          a' = (if a < 0 then max (n + a) 0 else min a n);
          b' = (if b < 0 then max (n + b) 0 else min b n)
      in take (nat (b' - a')) (drop (nat a') s))"

section \<open>Chunker (text.ts)\<close>

fun replaceCRLF :: "string \<Rightarrow> string" where
  \<comment> \<open>\<open>text.replace(/\r\n/g, '\n')\<close>\<close>
  "replaceCRLF (a # b # cs) =
     (if a = CHR 0x0D \<and> b = CHR 0x0A then CHR 0x0A # replaceCRLF cs else a # replaceCRLF (b # cs))"
| "replaceCRLF cs = cs"

partial_function (option) chunkLoop ::
  "string \<Rightarrow> int \<Rightarrow> int \<Rightarrow> int \<Rightarrow> string list \<Rightarrow> string list option" where
  \<comment> \<open>the \<open>while (start < normalized.length)\<close> loop; \<open>None\<close> when it does not return\<close>
  "chunkLoop normalized chunkSize overlap start chunks =
     (if start < int (length normalized) then
        (let end = min (start + chunkSize) (int (length normalized));
             chunks' = chunks @ [trim (slice normalized start end)]
         in if end \<ge> int (length normalized) then Some chunks'
            else chunkLoop normalized chunkSize overlap (max 0 (end - overlap)) chunks')
      else Some chunks)"

definition chunkText :: "string \<Rightarrow> int \<Rightarrow> int \<Rightarrow> string list option" where
  "chunkText text chunkSize overlap =
     (let normalized = trim (replaceCRLF text)
      in if normalized = [] then Some []
         else map_option (filter (\<lambda>c. c \<noteq> [])) (chunkLoop normalized chunkSize overlap 0 []))"

section \<open>Data model (ragStore.ts)\<close>

datatype RagSourceRole = Publication | Thesis | Web | Other

datatype FileType = Pdf | Docx | Txt

datatype DocumentStatus = Active | Failed | Deleted

datatype SourceType = Upload | Crawl

record RagDocumentMetadata =
  title :: "string option"
  year :: "string option"
  venue :: "string option"
  chapter_m :: "string option"
  section_m :: "string option"
  subsection_m :: "string option"
  topics :: "string list option"
  canonicalCitation :: "string option"

record RagDocument =
  id_d :: string
  ragId_d :: string
  fileName :: string
  fileType :: FileType
  status :: DocumentStatus
  uploadedAt :: string
  sourceType :: SourceType
  sourceRef :: "string option"
  documentCount :: int
  sourceRole_d :: RagSourceRole
  metadata :: "RagDocumentMetadata option"

text \<open>
  An optional field is an \<open>option\<close>. \<open>isRedundant\<close> is a plain boolean: the store
  normalizes a missing flag to \<open>false\<close> on every read, and the code only tests its
  truth value.
\<close>

record RagChunk =
  id_c :: string
  ragId :: string
  documentId :: string
  text_c :: string
  textHash :: "string option"
  embedding :: "real list option"
  sourceName :: string
  chunkIndex :: int
  sourceRole :: RagSourceRole
  paperKey :: "string option"
  documentTitle :: "string option"
  headingPath :: "string option"
  pageStart :: "int option"
  pageEnd :: "int option"
  redundantOf :: "string option"
  redundancyScore :: "real option"
  isRedundant :: bool

record RagStore =
  documents :: "RagDocument list"
  chunks :: "RagChunk list"

definition truthy :: "string option \<Rightarrow> bool" where
  \<comment> \<open>the truth value of an optional string: \<open>undefined\<close> and the empty string are false\<close>
  "truthy v = (case v of None \<Rightarrow> False | Some s \<Rightarrow> s \<noteq> [])"

definition newSet :: "'a list \<Rightarrow> 'a list" where
  \<comment> \<open>\<open>new Set(xs)\<close>: the distinct elements in insertion order\<close>
  "newSet xs = fold (\<lambda>x s. if x \<in> set s then s else s @ [x]) xs []"

section \<open>Similarity kernel (text.ts, ragStore.ts)\<close>

definition cosineSimilarity :: "real list \<Rightarrow> real list \<Rightarrow> real" where
  "cosineSimilarity a b =
     (if length a \<noteq> length b \<or> length a = 0 then 0
      else (let dot = sum_list (map (\<lambda>(av, bv). av * bv) (zip a b));
                normA = sum_list (map (\<lambda>av. av * av) a);
                normB = sum_list (map (\<lambda>bv. bv * bv) b)
            in if normA = 0 \<or> normB = 0 then 0
               else dot / (sqrt normA * sqrt normB)))"

definition keywordScore :: "string \<Rightarrow> string \<Rightarrow> real" where
  "keywordScore query candidate =
     (let queryTerms = newSet (filter (\<lambda>w. w \<noteq> [])
                         (splitRuns (\<lambda>c. \<not> isWordChar c) (toLowerCase query)))
      in if queryTerms = [] then 0
         else (let candidateTerms = splitRuns (\<lambda>c. \<not> isWordChar c) (toLowerCase candidate);
                   score = length (filter (\<lambda>term. term \<in> set queryTerms) candidateTerms)
               in real score / real (max (length candidateTerms) 1)))"

definition toWordFiveGrams :: "string \<Rightarrow> string list" where
  "toWordFiveGrams text =
     (let terms = filter (\<lambda>item. length item > 1)
                    (map trim (splitRuns (\<lambda>c. \<not> isWordChar c) (toLowerCase text)))
      in if length terms < 5
         then newSet (if terms \<noteq> [] then [joinWith '' '' terms] else [])
         else newSet (map (\<lambda>i. joinWith '' '' (take 5 (drop i terms)))
                        [0 ..< length terms - 4]))"

definition jaccard :: "string list \<Rightarrow> string list \<Rightarrow> real" where
  \<comment> \<open>both arguments are sets, given as distinct lists\<close>
  "jaccard a b =
     (if a = [] \<or> b = [] then 0
      else (let intersection = int (length (filter (\<lambda>item. item \<in> set b) a));
                union = int (length a) + int (length b) - intersection
            in if union = 0 then 0 else real_of_int intersection / real_of_int union))"

definition lexicalOverlapScore :: "string \<Rightarrow> string \<Rightarrow> real" where
  "lexicalOverlapScore a b = jaccard (toWordFiveGrams a) (toWordFiveGrams b)"

definition normalizeSentence :: "string \<Rightarrow> string" where
  "normalizeSentence text =
     trim (filter (\<lambda>c. isLowerAlnum c \<or> c = CHR '' '')
             (replaceRuns isSpace '' '' (toLowerCase text)))"

function splitSentenceBreaks :: "string \<Rightarrow> string list" where
  \<comment> \<open>\<open>text.split(/[.!?]\s+|\n+/)\<close>: a piece ends at \<open>.\<close>, \<open>!\<close> or \<open>?\<close> followed by
      white space (all of it is consumed), or at a run of line feeds\<close>
  "splitSentenceBreaks [] = [[]]"
| "splitSentenceBreaks (c # cs) =
     (if c \<in> set ''.!?'' \<and> cs \<noteq> [] \<and> isSpace (hd cs)
      then [] # splitSentenceBreaks (dropWhile isSpace cs)
      else if c = CHR 0x0A
      then [] # splitSentenceBreaks (dropWhile (\<lambda>x. x = CHR 0x0A) cs)
      else (case splitSentenceBreaks cs of [] \<Rightarrow> [[c]] | w # ws \<Rightarrow> (c # w) # ws))"
  by pat_completeness auto
termination
  by (relation "measure length") (auto simp: less_Suc_eq_le length_dropWhile_le)

definition splitSentences :: "string \<Rightarrow> string list" where
  "splitSentences text =
     filter (\<lambda>item. length item \<ge> 20) (map normalizeSentence (splitSentenceBreaks text))"

definition novelSentenceRatio :: "string \<Rightarrow> string \<Rightarrow> real" where
  "novelSentenceRatio thesisText publicationText =
     (let thesisSentences = splitSentences thesisText
      in if thesisSentences = [] then 0
         else (let publicationSentenceSet = newSet (splitSentences publicationText);
                   novelCount = length (filter (\<lambda>sentence. sentence \<notin> set publicationSentenceSet)
                                          thesisSentences)
               in real novelCount / real (length thesisSentences)))"

section \<open>Redundancy engine (ragStore.ts)\<close>

record DedupConfig =
  cosineThreshold :: real
  lexicalThreshold :: real
  novelSentenceThreshold :: real

definition clamp01 :: "real \<Rightarrow> real" where
  "clamp01 v = (if v < 0 then 0 else if v > 1 then 1 else v)"

definition getDedupConfig :: "real \<Rightarrow> real \<Rightarrow> real \<Rightarrow> DedupConfig" where
  \<comment> \<open>the three arguments are the numbers parsed from the environment\<close>
  "getDedupConfig cosine lexical novel =
     \<lparr> cosineThreshold = clamp01 cosine, lexicalThreshold = clamp01 lexical,
       novelSentenceThreshold = clamp01 novel \<rparr>"

definition defaultDedupConfig :: DedupConfig where
  \<comment> \<open>the defaults \<open>'0.96'\<close>, \<open>'0.85'\<close> and \<open>'0.2'\<close>\<close>
  "defaultDedupConfig = getDedupConfig (96 / 100) (85 / 100) (2 / 10)"

definition normalizeTextForHash :: "string \<Rightarrow> string" where
  "normalizeTextForHash text = trim (replaceRuns isSpace '' '' (toLowerCase text))"

definition getTextHash :: "(string \<Rightarrow> string) \<Rightarrow> string \<Rightarrow> string" where
  \<comment> \<open>\<open>sha1\<close> stands for the SHA-1 hex digest of Node's \<open>crypto\<close> module\<close>
  "getTextHash sha1 text = sha1 (normalizeTextForHash text)"

definition hashOrCompute :: "(string \<Rightarrow> string) \<Rightarrow> RagChunk \<Rightarrow> string" where
  \<comment> \<open>\<open>chunk.textHash || getTextHash(chunk.text)\<close>\<close>
  "hashOrCompute sha1 chunk =
     (if truthy (textHash chunk) then the (textHash chunk) else getTextHash sha1 (text_c chunk))"

definition bucketStep ::
  "(string \<Rightarrow> string) \<Rightarrow> RagChunk \<Rightarrow> (string \<Rightarrow> RagChunk list) \<Rightarrow> string \<Rightarrow> RagChunk list" where
  \<comment> \<open>one round of the first loop: the publication chunk gets its hash stored and is
      pushed on the bucket of that hash (a new bucket when the key is absent)\<close>
  "bucketStep sha1 publicationChunk m =
     (let hash = hashOrCompute sha1 publicationChunk
      in m(hash := m hash @ [publicationChunk\<lparr>textHash := Some hash\<rparr>]))"

definition publicationByHash ::
  "(string \<Rightarrow> string) \<Rightarrow> RagChunk list \<Rightarrow> string \<Rightarrow> RagChunk list" where
  \<comment> \<open>the map from hash to bucket after the first loop, with \<open>[]\<close> for an absent key\<close>
  "publicationByHash sha1 publicationChunks = fold (bucketStep sha1) publicationChunks (\<lambda>_. [])"

definition bestMatchStep ::
  "DedupConfig \<Rightarrow> RagChunk \<Rightarrow> RagChunk \<Rightarrow> (RagChunk \<times> real) option \<Rightarrow> (RagChunk \<times> real) option" where
  \<comment> \<open>one round of the near-duplicate loop; the state is \<open>bestMatch\<close> with \<open>bestSimilarity\<close>,
      \<open>None\<close> while \<open>bestMatch\<close> is \<open>null\<close>\<close>
  "bestMatchStep cfg thesisChunk publicationChunk best =
     (let lexical = lexicalOverlapScore (text_c thesisChunk) (text_c publicationChunk)
      in if lexical < lexicalThreshold cfg then best
         else (let cosine = (case (embedding thesisChunk, embedding publicationChunk) of
                               (Some a, Some b) \<Rightarrow> cosineSimilarity a b
                             | _ \<Rightarrow> 0)
               in if cosine < cosineThreshold cfg then best
                  else (let combined = (cosine + lexical) / 2
                        in case best of
                             None \<Rightarrow> Some (publicationChunk, combined)
                           | Some (bestMatch, bestSimilarity) \<Rightarrow>
                               if combined > bestSimilarity
                               then Some (publicationChunk, combined) else best)))"

definition findBestMatch ::
  "DedupConfig \<Rightarrow> RagChunk \<Rightarrow> RagChunk list \<Rightarrow> (RagChunk \<times> real) option" where
  "findBestMatch cfg thesisChunk publicationChunks =
     fold (bestMatchStep cfg thesisChunk) publicationChunks None"

definition resetThesisChunk :: "(string \<Rightarrow> string) \<Rightarrow> RagChunk \<Rightarrow> RagChunk" where
  \<comment> \<open>the four assignments at the head of the loop over the thesis chunks\<close>
  "resetThesisChunk sha1 thesisChunk =
     thesisChunk\<lparr> textHash := Some (hashOrCompute sha1 thesisChunk),
                  isRedundant := False, redundantOf := None, redundancyScore := None \<rparr>"

definition decideRedundancy ::
  "DedupConfig \<Rightarrow> RagChunk list \<Rightarrow> (string \<Rightarrow> RagChunk list) \<Rightarrow> RagChunk \<Rightarrow> RagChunk" where
  \<comment> \<open>the rest of the loop body, on the thesis chunk after the four assignments; each
      \<open>continue\<close> leaves the chunk as it is\<close>
  "decideRedundancy cfg publicationChunks byHash thesisChunk =
     (if publicationChunks = [] then thesisChunk
      else (case byHash (the (textHash thesisChunk)) of
              exactMatch # _ \<Rightarrow>
                if novelSentenceRatio (text_c thesisChunk) (text_c exactMatch)
                     < novelSentenceThreshold cfg
                then thesisChunk\<lparr> isRedundant := True, redundantOf := Some (id_c exactMatch),
                                  redundancyScore := Some 1 \<rparr>
                else thesisChunk
            | [] \<Rightarrow>
                (case findBestMatch cfg thesisChunk publicationChunks of
                   None \<Rightarrow> thesisChunk
                 | Some (bestMatch, bestSimilarity) \<Rightarrow>
                     if novelSentenceRatio (text_c thesisChunk) (text_c bestMatch)
                          \<ge> novelSentenceThreshold cfg
                     then thesisChunk
                     else thesisChunk\<lparr> isRedundant := True, redundantOf := Some (id_c bestMatch),
                                       redundancyScore := Some bestSimilarity \<rparr>)))"

definition annotateThesisChunk ::
  "(string \<Rightarrow> string) \<Rightarrow> DedupConfig \<Rightarrow> RagChunk list \<Rightarrow> (string \<Rightarrow> RagChunk list)
     \<Rightarrow> RagChunk \<Rightarrow> RagChunk" where
  \<comment> \<open>the body of the loop over the thesis chunks\<close>
  "annotateThesisChunk sha1 cfg publicationChunks byHash thesisChunk =
     decideRedundancy cfg publicationChunks byHash (resetThesisChunk sha1 thesisChunk)"

definition isPublicationOf :: "string \<Rightarrow> RagChunk \<Rightarrow> bool" where
  "isPublicationOf rid chunk = (ragId chunk = rid \<and> sourceRole chunk = Publication)"

definition isThesisOf :: "string \<Rightarrow> RagChunk \<Rightarrow> bool" where
  "isThesisOf rid chunk = (ragId chunk = rid \<and> sourceRole chunk = Thesis)"

definition storeHash :: "(string \<Rightarrow> string) \<Rightarrow> RagChunk \<Rightarrow> RagChunk" where
  \<comment> \<open>\<open>publicationChunk.textHash = hash\<close>\<close>
  "storeHash sha1 chunk = chunk\<lparr>textHash := Some (hashOrCompute sha1 chunk)\<rparr>"

definition annotateChunk ::
  "(string \<Rightarrow> string) \<Rightarrow> DedupConfig \<Rightarrow> string \<Rightarrow> RagChunk list \<Rightarrow> RagChunk \<Rightarrow> RagChunk" where
  \<comment> \<open>what the two loops make of one chunk object of the store: a publication chunk of
      the namespace is written by the first loop only, a thesis chunk by the second only
      (it reads the publication chunks after the first loop), any other chunk by none\<close>
  "annotateChunk sha1 cfg rid publicationChunks chunk =
     (if isPublicationOf rid chunk then storeHash sha1 chunk
      else if isThesisOf rid chunk
      then annotateThesisChunk sha1 cfg (map (storeHash sha1) publicationChunks)
             (publicationByHash sha1 publicationChunks) chunk
      else chunk)"

definition annotateThesisRedundancy ::
  "(string \<Rightarrow> string) \<Rightarrow> DedupConfig \<Rightarrow> RagStore \<Rightarrow> string \<Rightarrow> RagStore" where
  \<comment> \<open>The source mutates the chunk objects of \<open>store.chunks\<close> in place, through the two
      filtered lists; the model returns the store with every chunk replaced by its
      mutated value.\<close>
  "annotateThesisRedundancy sha1 cfg store rid =
     (let publicationChunks = filter (isPublicationOf rid) (chunks store);
          thesisChunks = filter (isThesisOf rid) (chunks store)
      in if thesisChunks = [] then store
         else store\<lparr> chunks := map (annotateChunk sha1 cfg rid publicationChunks) (chunks store) \<rparr>)"

section \<open>Retrieval from the store (ragStore.ts)\<close>

record RetrievalEnv =
  store :: RagStore
  embed :: "string \<Rightarrow> real list option"
  redundantThesisPenalty :: real
  defaultTopK :: int

text \<open>
  \<open>store\<close> is what \<open>readStore()\<close> returns, \<open>embed\<close> is the embedding service
  (\<open>ollamaEmbedding\<close>, \<open>None\<close> when it is unavailable), \<open>redundantThesisPenalty\<close> is
  \<open>getRedundantThesisPenalty()\<close> and \<open>defaultTopK\<close> is \<open>DEFAULT_RAG_TOP_K\<close>.
\<close>

record RetrieveParams =
  ragId_p :: string
  query_p :: string
  topK_p :: "int option"
  includeSourceRoles :: "RagSourceRole list"
  includeDocumentNames :: "string list"
  excludeRedundant :: bool
  maxChunksPerDocument :: "int option"

definition listRagDocuments :: "RetrievalEnv \<Rightarrow> string \<Rightarrow> RagDocument list" where
  "listRagDocuments env rid =
     filter (\<lambda>doc. ragId_d doc = rid \<and> status doc \<noteq> Deleted) (documents (store env))"

definition chunkScore :: "RetrievalEnv \<Rightarrow> string \<Rightarrow> real list option \<Rightarrow> RagChunk \<Rightarrow> real" where
  "chunkScore env query queryEmbedding chunk =
     (let score = (case (queryEmbedding, embedding chunk) of
                     (Some q, Some e) \<Rightarrow> cosineSimilarity q e
                   | _ \<Rightarrow> keywordScore query (text_c chunk))
      in if sourceRole chunk = Thesis \<and> isRedundant chunk \<and> truthy (redundantOf chunk)
         then score - redundantThesisPenalty env else score)"

definition sortByScoreDesc :: "('a \<times> real) list \<Rightarrow> ('a \<times> real) list" where
  \<comment> \<open>\<open>.sort((a, b) => b.score - a.score)\<close>: a stable sort, highest score first\<close>
  "sortByScoreDesc items = sort_key (\<lambda>item. - snd item) items"

fun selectCapped ::
  "int \<Rightarrow> int \<Rightarrow> (RagChunk \<times> real) list \<Rightarrow> RagChunk list \<Rightarrow> (string \<Rightarrow> int) \<Rightarrow> RagChunk list" where
  \<comment> \<open>the loop over \<open>ranked\<close> with \<open>selected\<close> and \<open>perDocumentCount\<close>\<close>
  "selectCapped boundedTopK maxPerDoc [] selected perDocumentCount = selected"
| "selectCapped boundedTopK maxPerDoc (item # rest) selected perDocumentCount =
     (if int (length selected) \<ge> boundedTopK then selected
      else (let count = perDocumentCount (documentId (fst item))
            in if count \<ge> maxPerDoc
               then selectCapped boundedTopK maxPerDoc rest selected perDocumentCount
               else selectCapped boundedTopK maxPerDoc rest (selected @ [fst item])
                      (perDocumentCount(documentId (fst item) := count + 1))))"

definition candidateChunks :: "RetrievalEnv \<Rightarrow> RetrieveParams \<Rightarrow> RagChunk list" where
  \<comment> \<open>the successive filters on \<open>candidates\<close>\<close>
  "candidateChunks env params =
     (let candidates = filter (\<lambda>chunk. ragId chunk = ragId_p params) (chunks (store env));
          candidates = (if includeSourceRoles params \<noteq> []
                        then filter (\<lambda>chunk. sourceRole chunk \<in> set (includeSourceRoles params)) candidates
                        else candidates);
          candidates = (if includeDocumentNames params \<noteq> []
                        then filter (\<lambda>chunk. sourceName chunk \<in> set (includeDocumentNames params)) candidates
                        else candidates);
          candidates = (if excludeRedundant params
                        then filter (\<lambda>chunk. \<not> isRedundant chunk) candidates
                        else candidates)
      in candidates)"

definition retrieveRelevantChunks :: "RetrievalEnv \<Rightarrow> RetrieveParams \<Rightarrow> RagChunk list" where
  "retrieveRelevantChunks env params =
     (let topK = (case topK_p params of Some k \<Rightarrow> k | None \<Rightarrow> defaultTopK env);
          maxPerDoc = (case maxChunksPerDocument params of
                         Some m \<Rightarrow> if m > 0 then Some m else None
                       | None \<Rightarrow> None);
          candidates = candidateChunks env params
      in if candidates = [] then []
         else (let queryEmbedding = embed env (query_p params);
                   ranked = sortByScoreDesc
                     (map (\<lambda>chunk. (chunk, chunkScore env (query_p params) queryEmbedding chunk))
                        candidates);
                   boundedTopK = max 1 topK
               in case maxPerDoc of
                    None \<Rightarrow> map fst (slice ranked 0 boundedTopK)
                  | Some m \<Rightarrow> selectCapped boundedTopK m ranked [] (\<lambda>_. 0)))"

section \<open>Intent classifier (agentRuntime.ts)\<close>

datatype RagIntent =
  paper_specific | paper_compare | technical_cross_paper | research_overview | future_directions

definition FUTURE_INTENT_TERMS :: "string list" where
  "FUTURE_INTENT_TERMS = [''future'', ''future directions'', ''open problem'', ''open problems'',
     ''next step'', ''next steps'', ''roadmap'', ''limitation'', ''limitations'']"

definition OVERVIEW_INTENT_TERMS :: "string list" where
  "OVERVIEW_INTENT_TERMS = [''overall'', ''big picture'', ''summary'', ''journey'', ''evolution'',
     ''problem definition'', ''research theme'', ''how your work evolved'']"

definition COMPARE_TERMS :: "string list" where
  "COMPARE_TERMS = [''compare'', ''comparison'', ''versus'', ''vs'', ''difference'', ''different'',
     ''better than'', ''tradeoff'', ''trade-off'']"

definition PAPER_SIGNAL_TERMS :: "string list" where
  "PAPER_SIGNAL_TERMS = [''paper'', ''publication'', ''wacv'', ''cvpr'', ''cvprw'', ''iccv'', ''iccvw'',
     ''eccv'', ''eccvw'', ''tmlr'', ''bmvc'', ''iclr'', ''result'', ''results'', ''ablation'', ''table'',
     ''metric'', ''accuracy'', ''miou'', ''f1'', ''auc'', ''dataset'']"

definition QUANTITATIVE_SIGNAL_TERMS :: "string list" where
  "QUANTITATIVE_SIGNAL_TERMS = [''result'', ''results'', ''metric'', ''metrics'', ''accuracy'', ''miou'',
     ''f1'', ''auc'', ''score'', ''gain'', ''improvement'', ''ablation'', ''table'', ''benchmark'']"

definition normalizeMatchText :: "string \<Rightarrow> string" where
  "normalizeMatchText v =
     replaceRuns isSpace '' '' (trim (replaceRuns (\<lambda>c. \<not> isLowerAlnum c) '' '' (toLowerCase v)))"

definition tokenizeNormalized :: "string \<Rightarrow> string list" where
  "tokenizeNormalized v =
     filter (\<lambda>item. length item > 1) (map trim (splitChar CHR '' '' (normalizeMatchText v)))"

definition hasAnyTerm :: "string \<Rightarrow> string list \<Rightarrow> bool" where
  "hasAnyTerm query terms = list_ex (\<lambda>term. includesStr query term) terms"

definition stripExtension :: "string \<Rightarrow> string" where
  \<comment> \<open>\<open>s.replace(/\.[a-z0-9]{2,6}$/i, '')\<close>: a final dot with 2 to 6 letters or digits
      after it is removed\<close>
  "stripExtension s =
     (let ext = takeWhile (\<lambda>c. isWordChar c \<and> c \<noteq> CHR ''_'') (rev s);
          stem = drop (length ext) (rev s)
      in if 2 \<le> length ext \<and> length ext \<le> 6 \<and> stem \<noteq> [] \<and> hd stem = CHR ''.''
         then rev (tl stem) else s)"

definition getDocumentAliases :: "RagDocument \<Rightarrow> string list" where
  "getDocumentAliases doc =
     (let fileStem = replaceRuns (\<lambda>c. c = CHR ''_'' \<or> c = CHR ''-'') '' ''
                       (stripExtension (fileName doc));
          titleOf = (case metadata doc of None \<Rightarrow> None | Some m \<Rightarrow> title m);
          citationOf = (case metadata doc of None \<Rightarrow> None | Some m \<Rightarrow> canonicalCitation m);
          aliases = newSet ([normalizeMatchText fileStem]
                      @ (if truthy titleOf then [normalizeMatchText (the titleOf)] else [])
                      @ (if truthy citationOf then [normalizeMatchText (the citationOf)] else []))
      in filter (\<lambda>alias. alias \<noteq> []) aliases)"

definition scoreAlias :: "string \<Rightarrow> string list \<Rightarrow> string \<Rightarrow> real \<Rightarrow> real" where
  \<comment> \<open>one round of the loop over the aliases, from \<open>bestScore\<close> to \<open>bestScore\<close>\<close>
  "scoreAlias queryNorm queryTokens alias bestScore =
     (if alias = [] then bestScore
      else if includesStr queryNorm alias \<and> length alias \<ge> 6 then max bestScore 3
      else (let aliasTokens = filter (\<lambda>token. length token > 2) (tokenizeNormalized alias)
            in if aliasTokens = [] then bestScore
               else (let overlap = length (filter (\<lambda>token. token \<in> set queryTokens) aliasTokens);
                         ratio = real overlap / real (length aliasTokens)
                     in if length aliasTokens \<ge> 2 \<and> ratio \<ge> 6 / 10 then max bestScore (2 + ratio)
                        else if length aliasTokens = 1 \<and> ratio \<ge> 1 then max bestScore (125 / 100)
                        else bestScore)))"

definition scoreDocumentMention :: "string \<Rightarrow> string list \<Rightarrow> RagDocument \<Rightarrow> real" where
  "scoreDocumentMention queryNorm queryTokens doc =
     (let aliases = getDocumentAliases doc
      in if aliases = [] then 0
         else fold (scoreAlias queryNorm queryTokens) aliases 0)"

definition findMentionedDocuments :: "string \<Rightarrow> RagDocument list \<Rightarrow> RagDocument list" where
  "findMentionedDocuments query docs =
     (let queryNorm = normalizeMatchText query;
          queryTokens = newSet (tokenizeNormalized queryNorm);
          scored = sortByScoreDesc
                     (filter (\<lambda>item. snd item > 0)
                        (map (\<lambda>doc. (doc, scoreDocumentMention queryNorm queryTokens doc)) docs))
      in map fst scored)"

definition detectIntent :: "string \<Rightarrow> RagDocument list \<Rightarrow> RagIntent" where
  "detectIntent query mentioned =
     (let queryNorm = normalizeMatchText query;
          hasFutureSignals = hasAnyTerm queryNorm FUTURE_INTENT_TERMS;
          hasOverviewSignals = hasAnyTerm queryNorm OVERVIEW_INTENT_TERMS;
          hasCompareSignals = hasAnyTerm queryNorm COMPARE_TERMS;
          paperMentions = filter (\<lambda>doc. sourceRole_d doc = Publication) mentioned;
          hasPaperSignals = (length paperMentions > 0 \<or> hasAnyTerm queryNorm PAPER_SIGNAL_TERMS)
      in if (hasCompareSignals \<and> length paperMentions \<ge> 1) \<or> length paperMentions \<ge> 2
         then paper_compare
         else if hasFutureSignals then future_directions
         else if hasOverviewSignals then research_overview
         else if length paperMentions = 1 \<and> hasPaperSignals then paper_specific
         else technical_cross_paper)"

section \<open>Retrieval engine (agentRuntime.ts)\<close>

record IntentContext =
  intent :: RagIntent
  chunks_i :: "RagChunk list"
  mentionedDocuments :: "RagDocument list"
  targetDocumentNames :: "string list"
  retrievalNotes :: "string list"

record IntentMix =
  publication_m :: real
  thesis_m :: real

definition getIntentMix :: "RagIntent \<Rightarrow> IntentMix" where
  "getIntentMix i =
     (case i of
        paper_specific \<Rightarrow> \<lparr> publication_m = 1, thesis_m = 0 \<rparr>
      | paper_compare \<Rightarrow> \<lparr> publication_m = 1, thesis_m = 0 \<rparr>
      | technical_cross_paper \<Rightarrow> \<lparr> publication_m = 75 / 100, thesis_m = 25 / 100 \<rparr>
      | research_overview \<Rightarrow> \<lparr> publication_m = 4 / 10, thesis_m = 6 / 10 \<rparr>
      | future_directions \<Rightarrow> \<lparr> publication_m = 3 / 10, thesis_m = 7 / 10 \<rparr>)"

definition mergeStep :: "RagChunk \<Rightarrow> string list \<times> RagChunk list \<Rightarrow> string list \<times> RagChunk list" where
  \<comment> \<open>one round of the loop of \<open>mergeUniqueChunks\<close>; the state is \<open>seen\<close> with \<open>merged\<close>\<close>
  "mergeStep chunk state =
     (if id_c chunk \<in> set (fst state) then state
      else (fst state @ [id_c chunk], snd state @ [chunk]))"

definition mergeUniqueChunks :: "RagChunk list \<Rightarrow> RagChunk list" where
  "mergeUniqueChunks cs = snd (fold mergeStep cs ([], []))"

definition capStep ::
  "int \<Rightarrow> RagChunk \<Rightarrow> (string \<Rightarrow> int) \<times> RagChunk list \<Rightarrow> (string \<Rightarrow> int) \<times> RagChunk list" where
  \<comment> \<open>one round of the loop of \<open>capChunksPerDocument\<close>; the state is \<open>counts\<close> (0 for an
      absent key) with \<open>filtered\<close>\<close>
  "capStep maxPerDocument chunk state =
     (let current = fst state (documentId chunk)
      in if current \<ge> maxPerDocument then state
         else ((fst state)(documentId chunk := current + 1), snd state @ [chunk]))"

definition capChunksPerDocument :: "RagChunk list \<Rightarrow> int \<Rightarrow> RagChunk list" where
  "capChunksPerDocument cs maxPerDocument =
     (if maxPerDocument \<le> 0 then cs
      else snd (fold (capStep maxPerDocument) cs ((\<lambda>_. 0), [])))"

function interleaveLoop ::
  "RagChunk list \<Rightarrow> RagChunk list \<Rightarrow> RagChunk list \<Rightarrow> int \<Rightarrow> RagChunk list" where
  \<comment> \<open>the \<open>while\<close> loop of \<open>interleaveChunks\<close> on \<open>merged\<close>, \<open>p\<close> and \<open>s\<close>\<close>
  "interleaveLoop merged p s topK =
     (if int (length merged) < topK \<and> (p \<noteq> [] \<or> s \<noteq> [])
      then (let merged1 = (if p \<noteq> [] then merged @ [hd p] else merged);
                p1 = (if p \<noteq> [] then tl p else p)
            in if int (length merged1) \<ge> topK then merged1
               else (let merged2 = (if s \<noteq> [] then merged1 @ [hd s] else merged1);
                         s1 = (if s \<noteq> [] then tl s else s)
                     in interleaveLoop merged2 p1 s1 topK))
      else merged)"
  by pat_completeness auto
termination
  by (relation "measure (\<lambda>(merged, p, s, topK). length p + length s)")
     (auto simp: neq_Nil_conv)

definition interleaveChunks :: "RagChunk list \<Rightarrow> RagChunk list \<Rightarrow> int \<Rightarrow> RagChunk list" where
  "interleaveChunks primary secondary topK = interleaveLoop [] primary secondary topK"

definition mathRound :: "real \<Rightarrow> int" where
  \<comment> \<open>\<open>Math.round\<close>: to the nearest integer, a half rounds up\<close>
  "mathRound x = \<lfloor>x + 1 / 2\<rfloor>"

function showNat :: "nat \<Rightarrow> string" where
  "showNat n = (if n < 10 then [''0123456789'' ! n] else showNat (n div 10) @ [''0123456789'' ! (n mod 10)])"
  by pat_completeness auto
termination
  by (relation "measure id") auto

definition showInt :: "int \<Rightarrow> string" where
  \<comment> \<open>an integer inside a template literal\<close>
  "showInt k = (if k < 0 then ''-'' @ showNat (nat (- k)) else showNat (nat k))"

definition intentName :: "RagIntent \<Rightarrow> string" where
  "intentName i =
     (case i of
        paper_specific \<Rightarrow> ''paper_specific''
      | paper_compare \<Rightarrow> ''paper_compare''
      | technical_cross_paper \<Rightarrow> ''technical_cross_paper''
      | research_overview \<Rightarrow> ''research_overview''
      | future_directions \<Rightarrow> ''future_directions'')"

definition strictParams :: "string \<Rightarrow> string \<Rightarrow> int \<Rightarrow> string \<Rightarrow> RetrieveParams" where
  \<comment> \<open>the query of the \<open>paper_specific\<close> hard filter\<close>
  "strictParams rid query topK targetName =
     \<lparr> ragId_p = rid, query_p = query, topK_p = Some (max 2 topK),
       includeSourceRoles = [Publication], includeDocumentNames = [targetName],
       excludeRedundant = True, maxChunksPerDocument = Some (max 2 (min 4 topK)) \<rparr>"

definition seedParams :: "string \<Rightarrow> string \<Rightarrow> string \<Rightarrow> RetrieveParams" where
  \<comment> \<open>the query for the best chunk of one compared paper\<close>
  "seedParams rid query documentName =
     \<lparr> ragId_p = rid, query_p = query, topK_p = Some 1,
       includeSourceRoles = [Publication], includeDocumentNames = [documentName],
       excludeRedundant = True, maxChunksPerDocument = Some 1 \<rparr>"

definition compareRetrieval ::
  "RetrievalEnv \<Rightarrow> string \<Rightarrow> string \<Rightarrow> int \<Rightarrow> string list \<Rightarrow> RagChunk list" where
  \<comment> \<open>\<open>merged\<close> of the \<open>paper_compare\<close> branch\<close>
  "compareRetrieval env rid query topK targets =
     (let seededChunks = concat (map (\<lambda>documentName.
                            case retrieveRelevantChunks env (seedParams rid query documentName) of
                              [] \<Rightarrow> [] | seed # _ \<Rightarrow> [seed]) targets);
          additional = retrieveRelevantChunks env
            \<lparr> ragId_p = rid, query_p = query,
              topK_p = Some (max topK (topK - int (length seededChunks))),
              includeSourceRoles = [Publication], includeDocumentNames = targets,
              excludeRedundant = True, maxChunksPerDocument = Some 2 \<rparr>
      in slice (capChunksPerDocument (mergeUniqueChunks (seededChunks @ additional)) 2) 0 topK)"

definition mixTargets :: "RagIntent \<Rightarrow> int \<Rightarrow> bool \<Rightarrow> bool \<Rightarrow> int \<times> int" where
  \<comment> \<open>\<open>publicationTarget\<close> and \<open>thesisTarget\<close> after all their assignments\<close>
  "mixTargets i topK hasPublicationDocs hasThesisDocs =
     (let mix = getIntentMix i;
          publicationTarget = (if hasPublicationDocs
                               then mathRound (real_of_int topK * publication_m mix) else 0);
          thesisTarget = (if hasThesisDocs then topK - publicationTarget else 0);
          (publicationTarget, thesisTarget) =
            (if (i = research_overview \<or> i = future_directions) \<and> hasPublicationDocs
             then (max 1 publicationTarget,
                   if hasThesisDocs then max 0 (topK - max 1 publicationTarget) else 0)
             else (publicationTarget, thesisTarget));
          (publicationTarget, thesisTarget) =
            (if i = technical_cross_paper \<and> hasPublicationDocs
             then (max 1 publicationTarget,
                   if hasThesisDocs then max 0 (topK - max 1 publicationTarget) else 0)
             else (publicationTarget, thesisTarget));
          publicationTarget = (if \<not> hasPublicationDocs then 0 else publicationTarget);
          thesisTarget = (if \<not> hasThesisDocs then 0 else thesisTarget)
      in (publicationTarget, thesisTarget))"

definition mixedRetrieval ::
  "RetrievalEnv \<Rightarrow> string \<Rightarrow> string \<Rightarrow> int \<Rightarrow> RagIntent \<Rightarrow> string list \<Rightarrow> int \<Rightarrow> int
     \<Rightarrow> RagChunk list" where
  \<comment> \<open>\<open>combined\<close> of the mixed path, after the backfill\<close>
  "mixedRetrieval env rid query topK i targets publicationTarget thesisTarget =
     (let thesisExcludeRedundant = \<not> (i = research_overview \<or> i = future_directions);
          publicationChunks =
            (if publicationTarget > 0
             then retrieveRelevantChunks env
                    \<lparr> ragId_p = rid, query_p = query, topK_p = Some publicationTarget,
                      includeSourceRoles = [Publication],
                      includeDocumentNames = (if i = paper_compare \<and> targets \<noteq> [] then targets else []),
                      excludeRedundant = True, maxChunksPerDocument = Some 2 \<rparr>
             else []);
          thesisChunks =
            (if thesisTarget > 0
             then retrieveRelevantChunks env
                    \<lparr> ragId_p = rid, query_p = query, topK_p = Some thesisTarget,
                      includeSourceRoles = [Thesis], includeDocumentNames = [],
                      excludeRedundant = thesisExcludeRedundant, maxChunksPerDocument = Some 2 \<rparr>
             else []);
          preferThesisFirst = (i = research_overview \<or> i = future_directions);
          combined = (if preferThesisFirst
                      then interleaveChunks thesisChunks publicationChunks topK
                      else interleaveChunks publicationChunks thesisChunks topK);
          combined = capChunksPerDocument (mergeUniqueChunks combined) 2
      in if int (length combined) < topK
         then (let backfill = retrieveRelevantChunks env
                       \<lparr> ragId_p = rid, query_p = query, topK_p = Some (topK * 2),
                         includeSourceRoles = [Publication, Thesis], includeDocumentNames = [],
                         excludeRedundant = False, maxChunksPerDocument = Some 2 \<rparr>
               in capChunksPerDocument (mergeUniqueChunks (combined @ backfill)) 2)
         else combined)"

definition fallbackNote :: "RagIntent \<Rightarrow> string" where
  "fallbackNote i = ''intent='' @ intentName i @ '' fallback=unfiltered''"

definition retrieveIntentContext :: "RetrievalEnv \<Rightarrow> string \<Rightarrow> string \<Rightarrow> int \<Rightarrow> IntentContext" where
  "retrieveIntentContext env rid query topK0 =
     (let topK = max 1 topK0;
          docs = listRagDocuments env rid;
          mentioned = findMentionedDocuments query docs;
          i = detectIntent query mentioned;
          publicationTargets = slice (filter (\<lambda>doc. sourceRole_d doc = Publication) mentioned) 0 4;
          targets = map fileName publicationTargets;
          hasPublicationDocs = list_ex (\<lambda>doc. sourceRole_d doc = Publication) docs;
          hasThesisDocs = list_ex (\<lambda>doc. sourceRole_d doc = Thesis) docs
      in if i = paper_specific \<and> targets \<noteq> []
         then (let targetName = hd targets;
                   strictChunks = retrieveRelevantChunks env (strictParams rid query topK targetName)
               in if strictChunks \<noteq> []
                  then \<lparr> intent = i, chunks_i = slice strictChunks 0 (max 2 topK),
                         mentionedDocuments = mentioned, targetDocumentNames = [targetName],
                         retrievalNotes = [''paper_specific hard filter applied: '' @ targetName] \<rparr>
                  else \<lparr> intent = i, chunks_i = [],
                         mentionedDocuments = mentioned, targetDocumentNames = [targetName],
                         retrievalNotes =
                           [''paper_specific hard filter had no results for '' @ targetName] \<rparr>)
         else (let merged = (if i = paper_compare \<and> targets \<noteq> []
                             then compareRetrieval env rid query topK targets else [])
               in if merged \<noteq> []
                  then \<lparr> intent = i, chunks_i = merged,
                         mentionedDocuments = mentioned, targetDocumentNames = targets,
                         retrievalNotes =
                           [''paper_compare targeted papers: '' @ joinWith '', '' targets] \<rparr>
                  else (let (publicationTarget, thesisTarget) =
                              mixTargets i topK hasPublicationDocs hasThesisDocs;
                            combined = mixedRetrieval env rid query topK i targets
                                         publicationTarget thesisTarget;
                            finalChunks = slice combined 0 topK
                        in if finalChunks \<noteq> []
                           then \<lparr> intent = i, chunks_i = finalChunks,
                                  mentionedDocuments = mentioned, targetDocumentNames = targets,
                                  retrievalNotes =
                                    [''intent='' @ intentName i
                                       @ '' mix publication='' @ showInt publicationTarget
                                       @ '' thesis='' @ showInt thesisTarget
                                       @ '' topK='' @ showInt topK] \<rparr>
                           else \<lparr> intent = i,
                                  chunks_i = retrieveRelevantChunks env
                                    \<lparr> ragId_p = rid, query_p = query, topK_p = Some topK,
                                      includeSourceRoles = [], includeDocumentNames = [],
                                      excludeRedundant = False, maxChunksPerDocument = None \<rparr>,
                                  mentionedDocuments = mentioned, targetDocumentNames = targets,
                                  retrievalNotes = [fallbackNote i] \<rparr>)))"

section \<open>Evidence contract enforcer (agentRuntime.ts)\<close>

datatype EvidenceSourceLabel = PAPER | THESIS | THESIS_REDUNDANT | WEB | SOURCE

definition labelText :: "EvidenceSourceLabel \<Rightarrow> string" where
  "labelText l =
     (case l of PAPER \<Rightarrow> ''PAPER'' | THESIS \<Rightarrow> ''THESIS''
        | THESIS_REDUNDANT \<Rightarrow> ''THESIS-REDUNDANT'' | WEB \<Rightarrow> ''WEB'' | SOURCE \<Rightarrow> ''SOURCE'')"

record EvidenceReference =
  marker :: string
  sourceLabel :: EvidenceSourceLabel
  sourceName_r :: string
  title_r :: string
  venue_r :: string
  year_r :: string
  chunkId :: string

record Citation =
  title_ci :: string
  venue_ci :: string
  year_ci :: string

record EnforcedResponse =
  responseText :: string
  citations :: "Citation list"

definition lineFeed :: string where
  "lineFeed = [CHR 0x0A]"

definition matchPrefixed :: "string \<Rightarrow> string \<Rightarrow> string option" where
  \<comment> \<open>\<open>r\<close> is the text after an opening bracket: the prefix, one digit or more, and a
      closing bracket; the result is the text between the brackets\<close>
  "matchPrefixed pre r =
     (if startsWith r pre
      then (let digits = takeWhile isDigit (drop (length pre) r);
                after = dropWhile isDigit (drop (length pre) r)
            in if digits \<noteq> [] \<and> after \<noteq> [] \<and> hd after = CHR '']''
               then Some (pre @ digits) else None)
      else None)"

definition matchMarker :: "string \<Rightarrow> string option" where
  \<comment> \<open>a match of \<open>/\[(TR\d+|P\d+|T\d+|W\d+|S\d+)\]/\<close> at the start of the text, the
      alternatives tried in their order; the match is the marker with its two brackets\<close>
  "matchMarker s =
     (case s of
        [] \<Rightarrow> None
      | c # r \<Rightarrow>
          if c \<noteq> CHR ''['' then None
          else (case matchPrefixed ''TR'' r of Some m \<Rightarrow> Some m | None \<Rightarrow>
               (case matchPrefixed ''P'' r of Some m \<Rightarrow> Some m | None \<Rightarrow>
               (case matchPrefixed ''T'' r of Some m \<Rightarrow> Some m | None \<Rightarrow>
               (case matchPrefixed ''W'' r of Some m \<Rightarrow> Some m | None \<Rightarrow>
                matchPrefixed ''S'' r)))))"

function stripUnknownMarkers :: "string \<Rightarrow> string list \<Rightarrow> string" where
  \<comment> \<open>the global replace: the text is scanned once from the left, a match is kept or
      dropped and the scan goes on after it\<close>
  "stripUnknownMarkers [] validMarkers = []"
| "stripUnknownMarkers (c # cs) validMarkers =
     (case matchMarker (c # cs) of
        Some m \<Rightarrow> (if m \<in> set validMarkers then ''['' @ m @ '']'' else [])
                    @ stripUnknownMarkers (drop (length m + 1) cs) validMarkers
      | None \<Rightarrow> c # stripUnknownMarkers cs validMarkers)"
  by pat_completeness auto
termination
  by (relation "measure (\<lambda>(s, v). length s)") auto

function markerMatches :: "string \<Rightarrow> string list" where
  \<comment> \<open>\<open>text.match(/.../g)\<close>, each match without its brackets\<close>
  "markerMatches [] = []"
| "markerMatches (c # cs) =
     (case matchMarker (c # cs) of
        Some m \<Rightarrow> m # markerMatches (drop (length m + 1) cs)
      | None \<Rightarrow> markerMatches cs)"
  by pat_completeness auto
termination
  by (relation "measure length") auto

definition countValidMarkersInText :: "string \<Rightarrow> string list \<Rightarrow> nat" where
  "countValidMarkersInText s validMarkers =
     length (filter (\<lambda>raw. raw \<in> set validMarkers) (markerMatches s))"

definition numberTail :: "string \<Rightarrow> bool" where
  \<comment> \<open>what may follow the digits of a match of
      \<open>/\b\d+(\.\d+)?\s*(%|percent|points|x)?\b/\<close>: the end of the text or a character
      outside \<open>\w\<close> (the match then ends after the digits), or one of the units
      \<open>percent\<close>, \<open>points\<close>, \<open>x\<close> with a word boundary after it\<close>
  "numberTail after =
     (after = [] \<or> \<not> isWordChar (hd after)
      \<or> list_ex (\<lambda>unit. startsWith after unit
                    \<and> (drop (length unit) after = [] \<or> \<not> isWordChar (hd (drop (length unit) after))))
           [''percent'', ''points'', ''x''])"

fun numberRegexTest :: "char option \<Rightarrow> string \<Rightarrow> bool" where
  \<comment> \<open>\<open>/\b\d+(\.\d+)?\s*(%|percent|points|x)?\b/.test(text)\<close>; the first argument is the
      character before the position: a match starts at a digit that follows the start of
      the text or a character outside \<open>\w\<close>\<close>
  "numberRegexTest prev [] = False"
| "numberRegexTest prev (c # cs) =
     ((isDigit c \<and> (case prev of None \<Rightarrow> True | Some b \<Rightarrow> \<not> isWordChar b)
         \<and> numberTail (dropWhile isDigit cs))
      \<or> numberRegexTest (Some c) cs)"

definition hasQuantitativeSignals :: "string \<Rightarrow> bool" where
  "hasQuantitativeSignals s =
     (let normalized = normalizeMatchText s
      in if numberRegexTest None s then True
         else list_ex (\<lambda>term. includesStr normalized term) QUANTITATIVE_SIGNAL_TERMS)"

definition stripModelProvidedEvidenceSections :: "string \<Rightarrow> string" where
  "stripModelProvidedEvidenceSections s =
     (let markers = [lineFeed @ ''Primary evidence:'', lineFeed @ ''### Evidence Notes'',
                     lineFeed @ ''### Evidence'', lineFeed @ ''Evidence Notes'' @ lineFeed,
                     lineFeed @ ''Evidence'' @ lineFeed, lineFeed @ ''Citations'' @ lineFeed,
                     lineFeed @ ''References'' @ lineFeed];
          cutIndex = fold (\<lambda>m cut. (let index = indexOf s m
                                     in if index \<ge> 0 \<and> (cut < 0 \<or> index < cut) then index else cut))
                          markers (- 1)
      in if cutIndex < 0 then trim s else trim (slice s 0 cutIndex))"

definition buildEvidenceMarkdownBlock :: "EvidenceReference list \<Rightarrow> string" where
  "buildEvidenceMarkdownBlock refs =
     (if refs = [] then []
      else joinWith lineFeed
             (''### Evidence'' #
              map (\<lambda>ref. ''- ['' @ marker ref @ ''] '' @ labelText (sourceLabel ref)
                          @ '' | '' @ title_r ref @ '' | venue: '' @ venue_r ref
                          @ '' | year: '' @ year_r ref @ '' | chunk: '' @ chunkId ref) refs))"

fun dedupeLoop :: "EvidenceReference list \<Rightarrow> string list \<Rightarrow> Citation list \<Rightarrow> Citation list" where
  \<comment> \<open>the loop of \<open>dedupeCitationObjects\<close> on \<open>seen\<close> and \<open>citations\<close>\<close>
  "dedupeLoop [] seen cits = cits"
| "dedupeLoop (ref # rest) seen cits =
     (let key = labelText (sourceLabel ref) @ ''::'' @ title_r ref @ ''::'' @ year_r ref
                  @ ''::'' @ venue_r ref
      in if key \<in> set seen then dedupeLoop rest seen cits
         else (let cits' = cits @ [\<lparr> title_ci = title_r ref, venue_ci = venue_r ref,
                                       year_ci = year_r ref \<rparr>]
               in if length cits' \<ge> 8 then cits' else dedupeLoop rest (seen @ [key]) cits'))"

definition dedupeCitationObjects :: "EvidenceReference list \<Rightarrow> Citation list" where
  "dedupeCitationObjects refs = dedupeLoop refs [] []"

definition complianceNotesOf ::
  "string \<Rightarrow> IntentContext \<Rightarrow> string \<Rightarrow> EvidenceReference list \<Rightarrow> string list" where
  \<comment> \<open>\<open>complianceNotes\<close> after its four conditional pushes; \<open>cleaned\<close> is the response
      text after the unknown markers are stripped\<close>
  "complianceNotesOf query ctx cleaned refs =
     (let paperRefs = filter (\<lambda>ref. sourceLabel ref = PAPER) refs;
          thesisRefs = filter (\<lambda>ref. sourceLabel ref = THESIS) refs;
          thesisRedundantRefs = filter (\<lambda>ref. sourceLabel ref = THESIS_REDUNDANT) refs;
          hasQuantitativeClaim = (hasQuantitativeSignals query \<or> hasQuantitativeSignals cleaned);
          restricted = (intent ctx = paper_specific \<and> targetDocumentNames ctx \<noteq> [])
      in (if restricted
          then [''Evidence is restricted to the target paper: '' @ hd (targetDocumentNames ctx) @ ''.'']
          else [])
         @ (if hasQuantitativeClaim \<and> paperRefs = []
            then (if restricted
                  then [''Requested quantitative result was not found in retrieved context from the target paper.'']
                  else [''Publication-backed quantitative evidence was not found in current retrieved context.''])
            else [])
         @ (if thesisRedundantRefs \<noteq> [] \<and> paperRefs = []
            then [''Only thesis-redundant evidence was available for some claims; treat those claims as lower confidence.'']
            else [])
         @ (if paperRefs \<noteq> [] \<and> (thesisRefs \<noteq> [] \<or> thesisRedundantRefs \<noteq> [])
            then [''When thesis framing differs from paper wording, publication evidence is treated as canonical for factual details.'']
            else []))"

definition enforceCitationContract ::
  "string \<Rightarrow> IntentContext \<Rightarrow> string \<Rightarrow> EvidenceReference list \<Rightarrow> EnforcedResponse" where
  "enforceCitationContract query ctx responseText0 refs =
     (let validMarkers = newSet (map marker refs);
          cleaned = trim (stripUnknownMarkers
                            (stripModelProvidedEvidenceSections (trim responseText0)) validMarkers);
          paperRefs = filter (\<lambda>ref. sourceLabel ref = PAPER) refs;
          thesisRefs = filter (\<lambda>ref. sourceLabel ref = THESIS) refs;
          thesisRedundantRefs = filter (\<lambda>ref. sourceLabel ref = THESIS_REDUNDANT) refs;
          complianceNotes = complianceNotesOf query ctx cleaned refs;
          markerCount = countValidMarkersInText cleaned validMarkers;
          prioritizedMarkers =
            joinWith '' ''
              (map (\<lambda>ref. ''['' @ marker ref @ '']'')
                 (slice (paperRefs @ thesisRefs @ thesisRedundantRefs
                           @ filter (\<lambda>ref. sourceLabel ref = WEB \<or> sourceLabel ref = SOURCE) refs)
                    0 4));
          withPrimary =
            (if refs \<noteq> [] \<and> markerCount = 0 \<and> prioritizedMarkers \<noteq> []
             then trim (cleaned @ lineFeed @ lineFeed @ ''Primary evidence: '' @ prioritizedMarkers)
             else cleaned);
          withNotes =
            (if complianceNotes \<noteq> []
             then trim (withPrimary @ lineFeed @ lineFeed
                        @ joinWith lineFeed (''### Evidence Notes''
                                             # map (\<lambda>note. ''- '' @ note) complianceNotes))
             else withPrimary);
          evidenceBlock = buildEvidenceMarkdownBlock refs;
          withEvidence =
            (if evidenceBlock \<noteq> []
             then trim (withNotes @ lineFeed @ lineFeed @ evidenceBlock)
             else withNotes)
      in \<lparr> responseText = withEvidence, citations = dedupeCitationObjects refs \<rparr>)"

section \<open>Vocabulary of the properties\<close>

definition chunksOfDocument :: "string \<Rightarrow> RagChunk list \<Rightarrow> RagChunk list" where
  \<comment> \<open>the chunks of a list that share the \<open>documentId\<close> \<open>d\<close>\<close>
  "chunksOfDocument d cs = filter (\<lambda>chunk. documentId chunk = d) cs"

definition redundancyFields :: "RagChunk \<Rightarrow> bool \<times> string option \<times> real option" where
  \<comment> \<open>\<open>isRedundant\<close>, \<open>redundantOf\<close> and \<open>redundancyScore\<close> of a chunk\<close>
  "redundancyFields c = (isRedundant c, redundantOf c, redundancyScore c)"

definition pairCosine :: "RagChunk \<Rightarrow> RagChunk \<Rightarrow> real" where
  \<comment> \<open>the value of \<open>cosine\<close> in the near-duplicate loop: 0 unless both chunks have an
      embedding\<close>
  "pairCosine t p =
     (case (embedding t, embedding p) of (Some a, Some b) \<Rightarrow> cosineSimilarity a b | _ \<Rightarrow> 0)"

definition combinedSimilarity :: "RagChunk \<Rightarrow> RagChunk \<Rightarrow> real" where
  \<comment> \<open>the value of \<open>combined\<close> in the near-duplicate loop\<close>
  "combinedSimilarity t p = (pairCosine t p + lexicalOverlapScore (text_c t) (text_c p)) / 2"

definition qualifies :: "DedupConfig \<Rightarrow> RagChunk \<Rightarrow> RagChunk \<Rightarrow> bool" where
  \<comment> \<open>a publication chunk passes both \<open>continue\<close> tests of the near-duplicate loop\<close>
  "qualifies cfg t p =
     (lexicalOverlapScore (text_c t) (text_c p) \<ge> lexicalThreshold cfg
      \<and> pairCosine t p \<ge> cosineThreshold cfg)"

definition bestInv :: "DedupConfig \<Rightarrow> RagChunk \<Rightarrow> RagChunk list \<Rightarrow> (RagChunk \<times> real) option \<Rightarrow> bool" where
  \<comment> \<open>the invariant of the near-duplicate loop after the publication chunks \<open>seen\<close>\<close>
  "bestInv cfg t seen best =
     (case best of
        None \<Rightarrow> \<not> list_ex (qualifies cfg t) seen
      | Some (p, s) \<Rightarrow> p \<in> set seen \<and> qualifies cfg t p \<and> s = combinedSimilarity t p
                       \<and> list_all (\<lambda>q. qualifies cfg t q \<longrightarrow> combinedSimilarity t q \<le> s) seen)"

definition frameOf :: "(string \<Rightarrow> string) \<Rightarrow> string \<Rightarrow> RagChunk \<Rightarrow> RagChunk \<Rightarrow> bool" where
  \<comment> \<open>what a run on the namespace \<open>r\<close> may change from a chunk \<open>c\<close> to \<open>c'\<close>: nothing
      but the hash and the redundancy fields; the redundancy fields only of a thesis
      chunk of \<open>r\<close>; nothing at all outside the publication and thesis chunks of \<open>r\<close>;
      the hash only from a missing one to the computed one\<close>
  "frameOf sha1 r c c' =
     (c'\<lparr>textHash := textHash c, isRedundant := isRedundant c, redundantOf := redundantOf c,
         redundancyScore := redundancyScore c\<rparr> = c
      \<and> (\<not> isThesisOf r c \<longrightarrow> redundancyFields c' = redundancyFields c)
      \<and> (\<not> isThesisOf r c \<and> \<not> isPublicationOf r c \<longrightarrow> c' = c)
      \<and> (textHash c' = textHash c
         \<or> (\<not> truthy (textHash c) \<and> textHash c' = Some (getTextHash sha1 (text_c c)))))"

section \<open>Example data\<close>

definition exampleDocument :: "string \<Rightarrow> string \<Rightarrow> RagSourceRole \<Rightarrow> RagDocument" where
  \<comment> \<open>an active uploaded document of the namespace \<open>ns\<close>, without metadata\<close>
  "exampleDocument i f r =
     \<lparr> id_d = i, ragId_d = ''ns'', fileName = f, fileType = Pdf, status = Active,
       uploadedAt = ''2024-01-01T00:00:00.000Z'', sourceType = Upload, sourceRef = None,
       documentCount = 1, sourceRole_d = r, metadata = None \<rparr>"

definition exampleChunk ::
  "string \<Rightarrow> string \<Rightarrow> string \<Rightarrow> RagSourceRole \<Rightarrow> string \<Rightarrow> string option \<Rightarrow> RagChunk" where
  \<comment> \<open>a chunk of the namespace \<open>ns\<close> as ingestion stores it when the embedding service is
      unavailable: no embedding, not redundant\<close>
  "exampleChunk i d f r t h =
     \<lparr> id_c = i, ragId = ''ns'', documentId = d, text_c = t, textHash = h, embedding = None,
       sourceName = f, chunkIndex = 0, sourceRole = r, paperKey = None, documentTitle = None,
       headingPath = None, pageStart = None, pageEnd = None, redundantOf = None,
       redundancyScore = None, isRedundant = False \<rparr>"

definition exampleSha1 :: "string \<Rightarrow> string" where
  \<comment> \<open>the SHA-1 hex digests of the normalized texts of the examples; no other text is
      hashed there\<close>
  "exampleSha1 s =
     (if s = ''deep learning'' then ''871183362fa6570a33c0f3a3908dc58d813223a6''
      else if s = ''deep learning!'' then ''de628af64271730030d01ba6d9616da351ef4faa''
      else if s = ''the model reaches high accuracy we evaluate on three datasets''
      then ''00818aa93c29c506d86e9386e7509667ff7c623e''
      else [])"

definition deepnetDocument :: RagDocument where
  "deepnetDocument = exampleDocument ''d1'' ''deepnet.pdf'' Publication"

definition deepnetQuery :: string where
  "deepnetQuery = ''how does deepnet work''"

definition deepnetChunk1 :: RagChunk where
  "deepnetChunk1 = exampleChunk ''c1'' ''d1'' ''deepnet.pdf'' Publication ''deepnet is a network'' None"

definition deepnetChunk2 :: RagChunk where
  "deepnetChunk2 = exampleChunk ''c2'' ''d1'' ''deepnet.pdf'' Publication ''it has layers'' None"

definition deepnetChunk3 :: RagChunk where
  "deepnetChunk3 = exampleChunk ''c3'' ''d1'' ''deepnet.pdf'' Publication ''training deepnet takes days'' None"

definition deepnetEnv :: RetrievalEnv where
  "deepnetEnv =
     \<lparr> store = \<lparr> documents = [deepnetDocument],
                 chunks = [deepnetChunk1, deepnetChunk2, deepnetChunk3] \<rparr>,
       embed = (\<lambda>_. None), redundantThesisPenalty = 8 / 100, defaultTopK = 5 \<rparr>"

definition deepnetReference :: EvidenceReference where
  \<comment> \<open>the reference of \<open>deepnetChunk1\<close>: the first publication chunk gets the marker \<open>P1\<close>\<close>
  "deepnetReference =
     \<lparr> marker = ''P1'', sourceLabel = PAPER, sourceName_r = ''deepnet.pdf'',
       title_r = ''deepnet.pdf'', venue_r = ''N/A'', year_r = ''N/A'', chunkId = ''c1'' \<rparr>"

definition deepnetContext :: IntentContext where
  "deepnetContext =
     \<lparr> intent = paper_specific, chunks_i = [deepnetChunk1],
       mentionedDocuments = [deepnetDocument], targetDocumentNames = [''deepnet.pdf''],
       retrievalNotes = [''paper_specific hard filter applied: deepnet.pdf''] \<rparr>"

definition nestedAnswer :: string where
  \<comment> \<open>a model answer in which an unknown marker stands inside another bracket\<close>
  "nestedAnswer = ''DeepNet stacks layers [P[P99]7].''"

definition dlPublication :: RagChunk where
  "dlPublication = exampleChunk ''p1'' ''dp'' ''paper.pdf'' Publication ''deep learning!''
                     (Some ''de628af64271730030d01ba6d9616da351ef4faa'')"

definition dlThesis :: RagChunk where
  "dlThesis = exampleChunk ''t1'' ''dt'' ''thesis.pdf'' Thesis ''deep learning''
                (Some ''871183362fa6570a33c0f3a3908dc58d813223a6'')"

definition dlStore :: RagStore where
  "dlStore = \<lparr> documents = [exampleDocument ''dp'' ''paper.pdf'' Publication,
                            exampleDocument ''dt'' ''thesis.pdf'' Thesis],
               chunks = [dlPublication, dlThesis] \<rparr>"

definition embPublication :: RagChunk where
  "embPublication = dlPublication\<lparr>embedding := Some [1, 0]\<rparr>"

definition embThesis :: RagChunk where
  "embThesis = dlThesis\<lparr>embedding := Some [1, 0]\<rparr>"

definition twoLines :: string where
  "twoLines = ''the model reaches high accuracy'' @ [CHR 0x0A] @ ''we evaluate on three datasets''"

definition oneLine :: string where
  "oneLine = ''the model reaches high accuracy we evaluate on three datasets''"

definition joinedPublication :: RagChunk where
  "joinedPublication = exampleChunk ''p1'' ''dp1'' ''paper-a.pdf'' Publication oneLine
                         (Some ''00818aa93c29c506d86e9386e7509667ff7c623e'')"

definition samePublication :: RagChunk where
  "samePublication = exampleChunk ''p2'' ''dp2'' ''paper-b.pdf'' Publication twoLines
                       (Some ''00818aa93c29c506d86e9386e7509667ff7c623e'')"

definition thesisCopy :: RagChunk where
  "thesisCopy = exampleChunk ''t1'' ''dt'' ''thesis.pdf'' Thesis twoLines
                  (Some ''00818aa93c29c506d86e9386e7509667ff7c623e'')"

definition copyDocuments :: "RagDocument list" where
  "copyDocuments = [exampleDocument ''dp1'' ''paper-a.pdf'' Publication,
                    exampleDocument ''dp2'' ''paper-b.pdf'' Publication,
                    exampleDocument ''dt'' ''thesis.pdf'' Thesis]"

definition copyStore :: RagStore where
  "copyStore = \<lparr> documents = copyDocuments,
                 chunks = [joinedPublication, samePublication, thesisCopy] \<rparr>"

definition copyStoreSwapped :: RagStore where
  "copyStoreSwapped = \<lparr> documents = copyDocuments,
                        chunks = [samePublication, joinedPublication, thesisCopy] \<rparr>"

definition webChunk :: RagChunk where
  "webChunk = exampleChunk ''w1'' ''dw'' ''https://example.org/'' Web ''a page about the model'' None"

definition foreignThesis :: RagChunk where
  "foreignThesis = (exampleChunk ''t9'' ''d9'' ''thesis.pdf'' Thesis twoLines None)\<lparr>ragId := ''other''\<rparr>"

definition frameStore :: RagStore where
  "frameStore = \<lparr> documents = copyDocuments,
                  chunks = [samePublication, thesisCopy, webChunk, foreignThesis] \<rparr>"

section \<open>Properties of the chunker\<close>

lemma chunkLoop_stuck:
  assumes "chunkLoop normalized chunkSize overlap start acc = Some y"
  shows "\<not> (0 < chunkSize \<and> chunkSize \<le> overlap \<and> 0 \<le> start
            \<and> start + chunkSize < int (length normalized))"
proof (rule chunkLoop.raw_induct[where P = "\<lambda>n cs ov st ch y.
          \<not> (0 < cs \<and> cs \<le> ov \<and> 0 \<le> st \<and> st + cs < int (length n))", OF _ assms])
  fix loop n cs ov st ch r
  assume IH: "\<And>n cs ov st ch r. loop n cs ov st ch = Some r \<Longrightarrow>
                \<not> (0 < cs \<and> cs \<le> ov \<and> 0 \<le> st \<and> st + cs < int (length n))"
    and body: "(if st < int (length n) then
        (let end = min (st + cs) (int (length n));
             chunks' = ch @ [trim (slice n st end)]
         in if end \<ge> int (length n) then Some chunks'
            else loop n cs ov (max 0 (end - ov)) chunks')
      else Some ch) = Some r"
  show "\<not> (0 < cs \<and> cs \<le> ov \<and> 0 \<le> st \<and> st + cs < int (length n))"
  proof
    assume h: "0 < cs \<and> cs \<le> ov \<and> 0 \<le> st \<and> st + cs < int (length n)"
    from h body have "loop n cs ov (max 0 (st + cs - ov))
        (ch @ [trim (slice n st (st + cs))]) = Some r"
      by (simp add: Let_def min_def split: if_splits)
    from IH[OF this] h show False by (auto simp: max_def split: if_splits)
  qed
qed

text \<open>
  With an overlap below the chunk size the loop advances and returns: every window is a
  trimmed slice of the normalized text and the last one ends at the end of the text; the
  chunker then returns non-empty trimmed chunks, and none for an empty normalized text.
\<close>

lemma dropWhile_self: "xs = [] \<or> \<not> P (hd xs) \<Longrightarrow> dropWhile P xs = xs"
  by (cases xs) auto

lemma rev_dropWhile_rev_head:
  assumes "u = [] \<or> \<not> P (hd u)"
  shows "rev (dropWhile P (rev u)) = [] \<or> \<not> P (hd (rev (dropWhile P (rev u))))"
proof (cases u)
  case Nil
  then show ?thesis by simp
next
  case (Cons x xs)
  with assms have x: "\<not> P x" by simp
  have "\<exists>zs. dropWhile P (rev xs @ [x]) = zs @ [x]"
    using x by (simp add: dropWhile_append)
  then obtain zs where "dropWhile P (rev u) = zs @ [x]" using Cons by auto
  then show ?thesis using x by simp
qed

lemma trim_head: "trim s = [] \<or> \<not> isSpace (hd (trim s))"
  unfolding trim_def
  by (rule rev_dropWhile_rev_head) (metis hd_dropWhile)

lemma trim_idem: "trim (trim s) = trim s"
proof -
  have "dropWhile isSpace (trim s) = trim s"
    by (rule dropWhile_self) (rule trim_head)
  then show ?thesis by (simp add: trim_def dropWhile_idem)
qed

lemma chunkLoop_returns:
  assumes "0 < cs" "0 \<le> ov" "ov < cs" "0 \<le> st"
  shows "\<exists>ws. chunkLoop n cs ov st acc = Some (acc @ ws)
              \<and> (\<forall>w \<in> set ws. \<exists>a b. w = trim (slice n a b))
              \<and> (st < int (length n) \<longrightarrow>
                    (\<exists>a. 0 \<le> a \<and> a < int (length n) \<and> ws \<noteq> []
                          \<and> last ws = trim (slice n a (int (length n)))))"
  using assms(4)
proof (induction "nat (int (length n) - st)" arbitrary: st acc rule: less_induct)
  case less
  show ?case
  proof (cases "st < int (length n)")
    case False
    then show ?thesis by (subst chunkLoop.simps) simp
  next
    case True
    define e where "e = min (st + cs) (int (length n))"
    show ?thesis
    proof (cases "e \<ge> int (length n)")
      case True
      then have e: "e = int (length n)" by (simp add: e_def)
      have "chunkLoop n cs ov st acc = Some (acc @ [trim (slice n st (int (length n)))])"
        using \<open>st < int (length n)\<close> e by (subst chunkLoop.simps) (simp add: Let_def e_def)
      moreover have "0 \<le> st \<and> st < int (length n)" using less.prems \<open>st < int (length n)\<close> by simp
      ultimately show ?thesis by (intro exI[of _ "[trim (slice n st (int (length n)))]"]) auto
    next
      case False
      then have e: "e = st + cs" by (simp add: e_def min_def split: if_splits)
      define st' where "st' = max 0 (e - ov)"
      have st': "st < st'" "0 \<le> st'" using e assms less.prems by (simp_all add: st'_def)
      have step: "chunkLoop n cs ov st acc = chunkLoop n cs ov st' (acc @ [trim (slice n st e)])"
        using \<open>st < int (length n)\<close> False by (subst chunkLoop.simps) (simp add: Let_def e_def st'_def)
      have m: "nat (int (length n) - st') < nat (int (length n) - st)"
        using st' \<open>st < int (length n)\<close> by simp
      from less.hyps[OF m st'(2), of "acc @ [trim (slice n st e)]"]
      obtain ws where ws: "chunkLoop n cs ov st' (acc @ [trim (slice n st e)])
                           = Some ((acc @ [trim (slice n st e)]) @ ws)"
        and tr: "\<forall>w \<in> set ws. \<exists>a b. w = trim (slice n a b)"
        and la: "st' < int (length n) \<longrightarrow>
                    (\<exists>a. 0 \<le> a \<and> a < int (length n) \<and> ws \<noteq> []
                          \<and> last ws = trim (slice n a (int (length n))))" by blast
      have "st' < int (length n)" using False e st'_def assms less.prems by (simp add: st'_def)
      with la obtain a where a: "0 \<le> a" "a < int (length n)" "ws \<noteq> []"
          "last ws = trim (slice n a (int (length n)))" by blast
      show ?thesis
        apply (rule exI[of _ "trim (slice n st e) # ws"])
        using step ws tr a by auto
    qed
  qed
qed


lemma chunkText_returns:
  assumes "0 < chunkSize" "0 \<le> overlap" "overlap < chunkSize"
  shows "\<exists>cs. chunkText s chunkSize overlap = Some cs
              \<and> list_all (\<lambda>c. c \<noteq> [] \<and> trim c = c) cs
              \<and> (trim (replaceCRLF s) = [] \<longrightarrow> cs = [])"
proof (cases "trim (replaceCRLF s) = []")
  case True
  then show ?thesis by (simp add: chunkText_def)
next
  case False
  from chunkLoop_returns[OF assms, of 0 "trim (replaceCRLF s)" "[]"]
  obtain ws where ws: "chunkLoop (trim (replaceCRLF s)) chunkSize overlap 0 [] = Some ws"
    and tr: "\<forall>w \<in> set ws. \<exists>a b. w = trim (slice (trim (replaceCRLF s)) a b)" by auto
  have "list_all (\<lambda>c. c \<noteq> [] \<and> trim c = c) (filter (\<lambda>c. c \<noteq> []) ws)"
    using tr by (auto simp: list_all_iff trim_idem)
  with False ws show ?thesis by (simp add: chunkText_def)
qed

text \<open>
  C8. The chunker is claimed to return for every chunk size above 0 and every overlap of
  at least 0. On the text \<open>ab\<close> with size 1 and overlap 1 the loop sets \<open>start\<close> back to 0
  after the first window and never reaches the end of the text: the model has no result.
\<close>

theorem chunkText_overlap_diverges: "chunkText ''ab'' 1 1 = None"
proof -
  have "chunkLoop ''ab'' 1 1 0 [] = None"
  proof (cases "chunkLoop ''ab'' 1 1 0 []")
    case (Some y)
    from chunkLoop_stuck[OF this] show ?thesis by simp
  qed simp
  then show ?thesis by (simp add: chunkText_def trim_def isSpace_def)
qed

section \<open>Properties of the intent classifier\<close>

lemma deepnet_mentioned:
  "findMentionedDocuments deepnetQuery [deepnetDocument] = [deepnetDocument]"
  by code_simp

lemma deepnet_intent: "detectIntent deepnetQuery [deepnetDocument] = paper_specific"
  by code_simp

lemma deepnet_no_terms:
  "\<not> hasAnyTerm (normalizeMatchText deepnetQuery) COMPARE_TERMS
   \<and> \<not> hasAnyTerm (normalizeMatchText deepnetQuery) FUTURE_INTENT_TERMS
   \<and> \<not> hasAnyTerm (normalizeMatchText deepnetQuery) OVERVIEW_INTENT_TERMS
   \<and> \<not> hasAnyTerm (normalizeMatchText deepnetQuery) PAPER_SIGNAL_TERMS"
  by code_simp

text \<open>
  C7, as stated: a query that mentions exactly one publication and has no comparison,
  future or overview term is \<open>paper_specific\<close> only with a paper-signal term, and
  \<open>technical_cross_paper\<close> otherwise. The query \<open>how does deepnet work\<close> mentions the
  publication \<open>deepnet.pdf\<close>, has no term of any of the four lists, and is classified
  \<open>paper_specific\<close>.
\<close>

theorem detectIntent_signal_counterexample:
  "findMentionedDocuments deepnetQuery [deepnetDocument] = [deepnetDocument]
   \<and> sourceRole_d deepnetDocument = Publication
   \<and> \<not> hasAnyTerm (normalizeMatchText deepnetQuery) COMPARE_TERMS
   \<and> \<not> hasAnyTerm (normalizeMatchText deepnetQuery) FUTURE_INTENT_TERMS
   \<and> \<not> hasAnyTerm (normalizeMatchText deepnetQuery) OVERVIEW_INTENT_TERMS
   \<and> \<not> hasAnyTerm (normalizeMatchText deepnetQuery) PAPER_SIGNAL_TERMS
   \<and> detectIntent deepnetQuery (findMentionedDocuments deepnetQuery [deepnetDocument])
       \<noteq> technical_cross_paper"
  using deepnet_no_terms
  by (simp add: deepnet_mentioned deepnet_intent) (simp add: deepnetDocument_def exampleDocument_def)

text \<open>
  C7, amended: a query that mentions exactly one publication and has no comparison,
  future or overview term is classified \<open>paper_specific\<close>, with or without a
  paper-signal term: the mention itself counts as the paper signal.
\<close>

theorem detectIntent_single_publication:
  assumes "length (filter (\<lambda>doc. sourceRole_d doc = Publication) mentioned) = 1"
    and "\<not> hasAnyTerm (normalizeMatchText query) COMPARE_TERMS"
    and "\<not> hasAnyTerm (normalizeMatchText query) FUTURE_INTENT_TERMS"
    and "\<not> hasAnyTerm (normalizeMatchText query) OVERVIEW_INTENT_TERMS"
  shows "detectIntent query mentioned = paper_specific"
  using assms by (auto simp add: detectIntent_def Let_def)

theorem detectIntent_single_publication_witness:
  "length (filter (\<lambda>doc. sourceRole_d doc = Publication) [deepnetDocument]) = 1
   \<and> \<not> hasAnyTerm (normalizeMatchText deepnetQuery) COMPARE_TERMS
   \<and> \<not> hasAnyTerm (normalizeMatchText deepnetQuery) FUTURE_INTENT_TERMS
   \<and> \<not> hasAnyTerm (normalizeMatchText deepnetQuery) OVERVIEW_INTENT_TERMS
   \<and> detectIntent deepnetQuery [deepnetDocument] = paper_specific"
proof -
  have one: "length (filter (\<lambda>doc. sourceRole_d doc = Publication) [deepnetDocument]) = 1"
    by (simp add: deepnetDocument_def exampleDocument_def)
  from deepnet_no_terms have c: "\<not> hasAnyTerm (normalizeMatchText deepnetQuery) COMPARE_TERMS"
    and f: "\<not> hasAnyTerm (normalizeMatchText deepnetQuery) FUTURE_INTENT_TERMS"
    and v: "\<not> hasAnyTerm (normalizeMatchText deepnetQuery) OVERVIEW_INTENT_TERMS"
    by simp_all
  from detectIntent_single_publication [OF one c f v] one c f v show ?thesis by simp
qed

section \<open>Properties of the retrieval engine\<close>

lemma slice_from_0: "0 \<le> k \<Longrightarrow> slice xs 0 k = take (nat k) xs"
  by (auto simp: slice_def Let_def min_def)

lemma length_slice_0: "0 \<le> k \<Longrightarrow> int (length (slice xs 0 k)) \<le> k"
  by (simp add: slice_from_0)

lemma set_slice_0: "0 \<le> k \<Longrightarrow> set (slice xs 0 k) \<subseteq> set xs"
  by (simp add: slice_from_0 set_take_subset)

lemma length_filter_take: "length (filter P (take n xs)) \<le> length (filter P xs)"
proof -
  have "length (filter P xs) = length (filter P (take n xs)) + length (filter P (drop n xs))"
    by (metis append_take_drop_id filter_append length_append)
  then show ?thesis by simp
qed

lemma chunksOfDocument_slice:
  "0 \<le> k \<Longrightarrow> length (chunksOfDocument d (slice xs 0 k)) \<le> length (chunksOfDocument d xs)"
  by (simp add: slice_from_0 chunksOfDocument_def length_filter_take)

lemma set_selectCapped:
  "x \<in> set (selectCapped k m ranked sel cnt) \<Longrightarrow> x \<in> set sel \<or> x \<in> fst ` set ranked"
proof (induction ranked arbitrary: sel cnt)
  case Nil
  then show ?case by simp
next
  case (Cons item rest)
  show ?case
  proof (cases "int (length sel) \<ge> k")
    case True
    with Cons.prems show ?thesis by simp
  next
    case False
    show ?thesis
    proof (cases "cnt (documentId (fst item)) \<ge> m")
      case True
      with False Cons.prems have "x \<in> set (selectCapped k m rest sel cnt)" by (simp add: Let_def)
      from Cons.IH[OF this] show ?thesis by auto
    next
      case c: False
      with False Cons.prems have "x \<in> set (selectCapped k m rest (sel @ [fst item])
          (cnt(documentId (fst item) := cnt (documentId (fst item)) + 1)))" by (simp add: Let_def)
      from Cons.IH[OF this] show ?thesis by auto
    qed
  qed
qed

lemma length_selectCapped:
  "int (length sel) \<le> k \<Longrightarrow> int (length (selectCapped k m ranked sel cnt)) \<le> k"
proof (induction ranked arbitrary: sel cnt)
  case Nil
  then show ?case by simp
next
  case (Cons item rest)
  show ?case
  proof (cases "int (length sel) \<ge> k")
    case True
    with Cons.prems show ?thesis by simp
  next
    case False
    then have l: "int (length (sel @ [fst item])) \<le> k" by simp
    show ?thesis
    proof (cases "cnt (documentId (fst item)) \<ge> m")
      case True
      with False Cons.IH[OF Cons.prems] show ?thesis by (simp add: Let_def)
    next
      case c: False
      with False Cons.IH[OF l] show ?thesis by (simp add: Let_def)
    qed
  qed
qed

lemma cap_selectCapped:
  "\<forall>d. cnt d = int (length (chunksOfDocument d sel)) \<Longrightarrow> \<forall>d. cnt d \<le> m \<Longrightarrow>
   int (length (chunksOfDocument d (selectCapped k m ranked sel cnt))) \<le> m"
proof (induction ranked arbitrary: sel cnt)
  case Nil
  then show ?case by simp
next
  case (Cons item rest)
  show ?case
  proof (cases "int (length sel) \<ge> k")
    case True
    with Cons.prems show ?thesis by simp
  next
    case False
    show ?thesis
    proof (cases "cnt (documentId (fst item)) \<ge> m")
      case True
      with False have "selectCapped k m (item # rest) sel cnt = selectCapped k m rest sel cnt"
        by (simp add: Let_def)
      with Cons.IH[OF Cons.prems] show ?thesis by simp
    next
      case c: False
      define cnt1 where "cnt1 = cnt(documentId (fst item) := cnt (documentId (fst item)) + 1)"
      have a: "\<forall>d. cnt1 d = int (length (chunksOfDocument d (sel @ [fst item])))"
        using Cons.prems(1) by (auto simp: chunksOfDocument_def cnt1_def)
      have b: "\<forall>d. cnt1 d \<le> m" using Cons.prems(2) c by (auto simp: cnt1_def)
      have "selectCapped k m (item # rest) sel cnt = selectCapped k m rest (sel @ [fst item]) cnt1"
        using False c by (simp add: Let_def cnt1_def)
      with Cons.IH[OF a b] show ?thesis by simp
    qed
  qed
qed

lemma set_sortByScoreDesc: "set (sortByScoreDesc xs) = set xs"
  by (simp add: sortByScoreDesc_def)

lemma set_retrieveRelevantChunks:
  assumes "x \<in> set (retrieveRelevantChunks env params)"
  shows "x \<in> set (candidateChunks env params)"
proof -
  define ranked where "ranked = sortByScoreDesc (map (\<lambda>chunk. (chunk, chunkScore env (query_p params)
      (embed env (query_p params)) chunk)) (candidateChunks env params))"
  have fr: "fst ` set ranked = set (candidateChunks env params)"
    by (simp add: ranked_def set_sortByScoreDesc image_image)
  define k where "k = max 1 (case topK_p params of Some k \<Rightarrow> k | None \<Rightarrow> defaultTopK env)"
  have k: "0 \<le> k" by (simp add: k_def)
  define mp where "mp = (case maxChunksPerDocument params of
                         Some m \<Rightarrow> if m > 0 then Some m else None
                       | None \<Rightarrow> None)"
  have r: "retrieveRelevantChunks env params =
      (if candidateChunks env params = [] then []
       else case mp of None \<Rightarrow> map fst (slice ranked 0 k)
            | Some m \<Rightarrow> selectCapped k m ranked [] (\<lambda>_. 0))"
    unfolding retrieveRelevantChunks_def Let_def ranked_def k_def mp_def by simp
  show ?thesis
  proof (cases mp)
    case None
    with assms r have "x \<in> fst ` set (slice ranked 0 k)" by (auto split: if_splits)
    with set_slice_0[OF k, of ranked] fr show ?thesis by auto
  next
    case (Some m)
    with assms r have "x \<in> set (selectCapped k m ranked [] (\<lambda>_. 0))" by (auto split: if_splits)
    from set_selectCapped[OF this] fr show ?thesis by auto
  qed
qed

lemma length_retrieveRelevantChunks:
  "int (length (retrieveRelevantChunks env params))
     \<le> max 1 (case topK_p params of Some k \<Rightarrow> k | None \<Rightarrow> defaultTopK env)"
proof -
  define ranked where "ranked = sortByScoreDesc (map (\<lambda>chunk. (chunk, chunkScore env (query_p params)
      (embed env (query_p params)) chunk)) (candidateChunks env params))"
  define k where "k = max 1 (case topK_p params of Some k \<Rightarrow> k | None \<Rightarrow> defaultTopK env)"
  have k: "0 \<le> k" "1 \<le> k" by (simp_all add: k_def)
  define mp where "mp = (case maxChunksPerDocument params of
                         Some m \<Rightarrow> if m > 0 then Some m else None
                       | None \<Rightarrow> None)"
  have r: "retrieveRelevantChunks env params =
      (if candidateChunks env params = [] then []
       else case mp of None \<Rightarrow> map fst (slice ranked 0 k)
            | Some m \<Rightarrow> selectCapped k m ranked [] (\<lambda>_. 0))"
    unfolding retrieveRelevantChunks_def Let_def ranked_def k_def mp_def by simp
  have "int (length (retrieveRelevantChunks env params)) \<le> k"
  proof (cases mp)
    case None
    with r length_slice_0[OF k(1), of ranked] k show ?thesis by auto
  next
    case (Some m)
    have "int (length (selectCapped k m ranked [] (\<lambda>_. 0))) \<le> k"
      by (rule length_selectCapped) (use k in simp)
    with Some r k show ?thesis by auto
  qed
  then show ?thesis by (simp add: k_def)
qed

lemma cap_retrieveRelevantChunks:
  assumes "maxChunksPerDocument params = Some m" "0 < m"
  shows "int (length (chunksOfDocument d (retrieveRelevantChunks env params))) \<le> m"
proof -
  define ranked where "ranked = sortByScoreDesc (map (\<lambda>chunk. (chunk, chunkScore env (query_p params)
      (embed env (query_p params)) chunk)) (candidateChunks env params))"
  define k where "k = max 1 (case topK_p params of Some k \<Rightarrow> k | None \<Rightarrow> defaultTopK env)"
  have r: "retrieveRelevantChunks env params =
      (if candidateChunks env params = [] then []
       else selectCapped k m ranked [] (\<lambda>_. 0))"
    using assms by (simp add: retrieveRelevantChunks_def Let_def ranked_def k_def)
  have "int (length (chunksOfDocument d (selectCapped k m ranked [] (\<lambda>_. 0)))) \<le> m"
    by (rule cap_selectCapped) (use assms in \<open>auto simp: chunksOfDocument_def\<close>)
  with r assms show ?thesis by (auto simp: chunksOfDocument_def)
qed

lemma cap_fold:
  assumes "\<forall>d. fst st d = int (length (chunksOfDocument d (snd st)))" and "\<forall>d. fst st d \<le> m"
  shows "(\<forall>d. fst (fold (capStep m) cs st) d = int (length (chunksOfDocument d (snd (fold (capStep m) cs st)))))
         \<and> (\<forall>d. fst (fold (capStep m) cs st) d \<le> m)"
  using assms
proof (induction cs arbitrary: st)
  case Nil
  then show ?case by simp
next
  case (Cons c cs)
  have a: "\<forall>d. fst (capStep m c st) d = int (length (chunksOfDocument d (snd (capStep m c st))))"
    using Cons.prems(1) by (simp add: capStep_def Let_def chunksOfDocument_def)
  have b: "\<forall>d. fst (capStep m c st) d \<le> m"
    using Cons.prems(2) by (simp add: capStep_def Let_def)
  show ?case unfolding fold_simps o_apply by (rule Cons.IH[OF a b])
qed

lemma cap_capChunksPerDocument:
  assumes "0 < m"
  shows "int (length (chunksOfDocument d (capChunksPerDocument cs m))) \<le> m"
proof -
  have "(\<forall>d. fst (fold (capStep m) cs ((\<lambda>_. 0), [])) d
            = int (length (chunksOfDocument d (snd (fold (capStep m) cs ((\<lambda>_. 0), []))))))
         \<and> (\<forall>d. fst (fold (capStep m) cs ((\<lambda>_. 0), [])) d \<le> m)"
    by (rule cap_fold) (use assms in \<open>simp_all add: chunksOfDocument_def\<close>)
  then have "int (length (chunksOfDocument d (snd (fold (capStep m) cs ((\<lambda>_. 0), []))))) \<le> m"
    by metis
  then show ?thesis using assms by (simp add: capChunksPerDocument_def)
qed

lemma detectIntent_paper_specific:
  "detectIntent q m = paper_specific \<Longrightarrow> length (filter (\<lambda>doc. sourceRole_d doc = Publication) m) = 1"
  by (auto simp: detectIntent_def Let_def split: if_splits)

lemma if_capped:
  "\<exists>cs. (if c then capChunksPerDocument a 2 else capChunksPerDocument b 2) = capChunksPerDocument cs 2"
  by auto

lemma mixedRetrieval_capped:
  "\<exists>cs. mixedRetrieval env rid q topK i targets pt tt = capChunksPerDocument cs 2"
  unfolding mixedRetrieval_def Let_def by (rule if_capped)

lemma compareRetrieval_capped:
  "\<exists>cs. compareRetrieval env rid q topK targets = slice (capChunksPerDocument cs 2) 0 topK"
  unfolding compareRetrieval_def Let_def by blast

lemma retrieveIntentContext_rungs:
  fixes env rid q topK0
  defines "topK \<equiv> max 1 topK0"
  defines "ctx \<equiv> retrieveIntentContext env rid q topK0"
  defines "pubs \<equiv> filter (\<lambda>doc. sourceRole_d doc = Publication)
                     (findMentionedDocuments q (listRagDocuments env rid))"
  shows "(intent ctx = paper_specific
          \<and> (\<exists>doc. pubs = [doc] \<and> targetDocumentNames ctx = [fileName doc]
                \<and> chunks_i ctx = slice (retrieveRelevantChunks env
                                          (strictParams rid q topK (fileName doc))) 0 (max 2 topK))
          \<and> retrievalNotes ctx \<noteq> [fallbackNote (intent ctx)])
       \<or> (intent ctx \<noteq> paper_specific
          \<and> (\<exists>cs. chunks_i ctx = slice (capChunksPerDocument cs 2) 0 topK)
          \<and> retrievalNotes ctx \<noteq> [fallbackNote (intent ctx)])
       \<or> (intent ctx \<noteq> paper_specific
          \<and> (\<exists>ps. chunks_i ctx = retrieveRelevantChunks env ps \<and> topK_p ps = Some topK)
          \<and> retrievalNotes ctx = [fallbackNote (intent ctx)])"
proof -
  define i where "i = detectIntent q (findMentionedDocuments q (listRagDocuments env rid))"
  define targets where "targets = map fileName (slice pubs 0 4)"
  show ?thesis
  proof (cases "i = paper_specific")
    case True
    then have "length pubs = 1"
      unfolding i_def pubs_def by (rule detectIntent_paper_specific)
    then obtain doc where doc: "pubs = [doc]" by (cases pubs) auto
    then have t: "targets = [fileName doc]" by (simp add: targets_def slice_def)
    have "intent ctx = paper_specific \<and> targetDocumentNames ctx = [fileName doc]
       \<and> chunks_i ctx = slice (retrieveRelevantChunks env
                                          (strictParams rid q topK (fileName doc))) 0 (max 2 topK)
       \<and> retrievalNotes ctx \<noteq> [fallbackNote (intent ctx)]"
      using True t
      unfolding ctx_def retrieveIntentContext_def Let_def i_def[symmetric] topK_def[symmetric]
        pubs_def[symmetric] targets_def[symmetric]
      by (simp add: fallbackNote_def slice_def)
    with doc show ?thesis by blast
  next
    case False
    obtain pt tt where m: "mixTargets i topK
        (list_ex (\<lambda>doc. sourceRole_d doc = Publication) (listRagDocuments env rid))
        (list_ex (\<lambda>doc. sourceRole_d doc = Thesis) (listRagDocuments env rid)) = (pt, tt)"
      by (metis surj_pair)
    define merged where
      "merged = (if i = paper_compare \<and> targets \<noteq> [] then compareRetrieval env rid q topK targets else [])"
    define finalChunks where
      "finalChunks = slice (mixedRetrieval env rid q topK i targets pt tt) 0 topK"
    define fb where "fb = \<lparr> ragId_p = rid, query_p = q, topK_p = Some topK,
                           includeSourceRoles = [], includeDocumentNames = [],
                           excludeRedundant = False, maxChunksPerDocument = None \<rparr>"
    have e: "intent ctx = i
        \<and> chunks_i ctx = (if merged \<noteq> [] then merged else if finalChunks \<noteq> [] then finalChunks
                          else retrieveRelevantChunks env fb)
        \<and> (retrievalNotes ctx = [fallbackNote i]) = (merged = [] \<and> finalChunks = [])"
      unfolding ctx_def retrieveIntentContext_def Let_def i_def[symmetric] topK_def[symmetric]
        pubs_def[symmetric] targets_def[symmetric] m merged_def[symmetric] prod.case
        finalChunks_def[symmetric] fb_def[symmetric]
      using False by (simp add: fallbackNote_def)
    have "\<exists>cs. merged = slice (capChunksPerDocument cs 2) 0 topK" if "merged \<noteq> []"
      using that compareRetrieval_capped[of env rid q topK targets]
      by (simp add: merged_def split: if_splits)
    moreover have "\<exists>cs. finalChunks = slice (capChunksPerDocument cs 2) 0 topK"
      using mixedRetrieval_capped[of env rid q topK i targets pt tt]
      unfolding finalChunks_def by (elim exE) (rule exI, erule arg_cong)
    moreover have "topK_p fb = Some topK" by (simp add: fb_def)
    ultimately show ?thesis using e False
      by (cases "merged \<noteq> []"; cases "finalChunks \<noteq> []") auto
  qed
qed

lemma candidateChunks_strict:
  assumes "c \<in> set (candidateChunks env (strictParams rid q k t))"
  shows "ragId c = rid \<and> sourceRole c = Publication \<and> sourceName c = t \<and> \<not> isRedundant c
         \<and> c \<in> set (chunks (store env))"
  using assms by (simp add: candidateChunks_def strictParams_def Let_def)

text \<open>
  C1. When the classified intent is \<open>paper_specific\<close>, exactly one publication \<open>doc\<close> is
  mentioned, it is the target, and every returned chunk is a chunk of the store in the
  namespace whose \<open>sourceName\<close> is the file name of \<open>doc\<close>, of role publication and not
  redundant; when the hard-filtered query returns no chunk the result is empty.
\<close>

theorem paper_specific_hard_filter:
  assumes "intent (retrieveIntentContext env rid q topK) = paper_specific"
  shows "\<exists>doc. filter (\<lambda>doc. sourceRole_d doc = Publication)
                 (findMentionedDocuments q (listRagDocuments env rid)) = [doc]
          \<and> targetDocumentNames (retrieveIntentContext env rid q topK) = [fileName doc]
          \<and> (\<forall>c \<in> set (chunks_i (retrieveIntentContext env rid q topK)).
                 c \<in> set (chunks (store env)) \<and> ragId c = rid \<and> sourceName c = fileName doc
                 \<and> sourceRole c = Publication \<and> \<not> isRedundant c)
          \<and> (retrieveRelevantChunks env (strictParams rid q (max 1 topK) (fileName doc)) = []
               \<longrightarrow> chunks_i (retrieveIntentContext env rid q topK) = [])"
proof -
  from retrieveIntentContext_rungs[of env rid q topK] assms
  obtain doc where d: "filter (\<lambda>doc. sourceRole_d doc = Publication)
                 (findMentionedDocuments q (listRagDocuments env rid)) = [doc]"
    and t: "targetDocumentNames (retrieveIntentContext env rid q topK) = [fileName doc]"
    and c: "chunks_i (retrieveIntentContext env rid q topK)
           = slice (retrieveRelevantChunks env (strictParams rid q (max 1 topK) (fileName doc))) 0
               (max 2 (max 1 topK))"
    by auto
  have sub: "set (chunks_i (retrieveIntentContext env rid q topK))
      \<subseteq> set (retrieveRelevantChunks env (strictParams rid q (max 1 topK) (fileName doc)))"
    unfolding c by (rule set_slice_0) simp
  have "c \<in> set (chunks (store env)) \<and> ragId c = rid \<and> sourceName c = fileName doc
                 \<and> sourceRole c = Publication \<and> \<not> isRedundant c"
    if "c \<in> set (chunks_i (retrieveIntentContext env rid q topK))" for c
  proof -
    from that sub
    have "c \<in> set (retrieveRelevantChunks env (strictParams rid q (max 1 topK) (fileName doc)))"
      by blast
    from candidateChunks_strict[OF set_retrieveRelevantChunks[OF this]] show ?thesis by simp
  qed
  moreover have "retrieveRelevantChunks env (strictParams rid q (max 1 topK) (fileName doc)) = []
               \<longrightarrow> chunks_i (retrieveIntentContext env rid q topK) = []"
    using c by (simp add: slice_def)
  ultimately show ?thesis using d t by blast
qed

text \<open>
  C6, amended: for every \<open>topK\<close> of at least 1 the returned list has at most
  \<open>max 2 topK\<close> chunks, and at most \<open>topK\<close> chunks unless the intent is
  \<open>paper_specific\<close>.
\<close>

theorem retrieval_length_bound:
  assumes "1 \<le> topK"
  shows "int (length (chunks_i (retrieveIntentContext env rid q topK))) \<le> max 2 topK
         \<and> (intent (retrieveIntentContext env rid q topK) \<noteq> paper_specific
              \<longrightarrow> int (length (chunks_i (retrieveIntentContext env rid q topK))) \<le> topK)"
proof -
  have k: "max 1 topK = topK" using assms by simp
  let ?ctx = "retrieveIntentContext env rid q topK"
  from retrieveIntentContext_rungs[of env rid q topK]
  consider (strict) t where "intent ?ctx = paper_specific"
      "chunks_i ?ctx = slice (retrieveRelevantChunks env (strictParams rid q topK t)) 0 (max 2 topK)"
    | (capped) cs where "chunks_i ?ctx = slice (capChunksPerDocument cs 2) 0 topK"
    | (fallback) ps where "chunks_i ?ctx = retrieveRelevantChunks env ps" "topK_p ps = Some topK"
    unfolding k by blast
  then show ?thesis
  proof cases
    case strict
    have "int (length (chunks_i ?ctx)) \<le> max 2 topK"
      unfolding strict(2) by (rule length_slice_0) simp
    with strict(1) show ?thesis by simp
  next
    case capped
    have "int (length (chunks_i ?ctx)) \<le> topK"
      unfolding capped by (rule length_slice_0) (use assms in simp)
    then show ?thesis by simp
  next
    case fallback
    from length_retrieveRelevantChunks[of env ps] fallback assms
    have "int (length (chunks_i ?ctx)) \<le> topK" by simp
    then show ?thesis by simp
  qed
qed

text \<open>
  C2, amended: unless the result comes from the unfiltered fallback (which is recorded in
  the retrieval notes), the returned list holds at most \<open>max 2 (min 4 topK)\<close> chunks of
  one document under the \<open>paper_specific\<close> intent and at most 2 under every other intent.
\<close>

theorem retrieval_document_cap:
  assumes "retrievalNotes (retrieveIntentContext env rid q topK)
             \<noteq> [fallbackNote (intent (retrieveIntentContext env rid q topK))]"
  shows "int (length (chunksOfDocument d (chunks_i (retrieveIntentContext env rid q topK))))
           \<le> (if intent (retrieveIntentContext env rid q topK) = paper_specific
               then max 2 (min 4 (max 1 topK)) else 2)"
proof -
  let ?ctx = "retrieveIntentContext env rid q topK"
  from retrieveIntentContext_rungs[of env rid q topK] assms
  consider (strict) t where "intent ?ctx = paper_specific"
      "chunks_i ?ctx = slice (retrieveRelevantChunks env (strictParams rid q (max 1 topK) t)) 0
                         (max 2 (max 1 topK))"
    | (capped) cs where "intent ?ctx \<noteq> paper_specific"
      "chunks_i ?ctx = slice (capChunksPerDocument cs 2) 0 (max 1 topK)"
    by blast
  then show ?thesis
  proof cases
    case strict
    have "length (chunksOfDocument d (chunks_i ?ctx))
        \<le> length (chunksOfDocument d (retrieveRelevantChunks env (strictParams rid q (max 1 topK) t)))"
      unfolding strict(2) by (rule chunksOfDocument_slice) simp
    moreover have "int (length (chunksOfDocument d
        (retrieveRelevantChunks env (strictParams rid q (max 1 topK) t)))) \<le> max 2 (min 4 (max 1 topK))"
      by (rule cap_retrieveRelevantChunks) (simp_all add: strictParams_def)
    ultimately show ?thesis using strict(1) by simp
  next
    case capped
    have "length (chunksOfDocument d (chunks_i ?ctx))
        \<le> length (chunksOfDocument d (capChunksPerDocument cs 2))"
      unfolding capped(2) by (rule chunksOfDocument_slice) simp
    moreover have "int (length (chunksOfDocument d (capChunksPerDocument cs 2))) \<le> 2"
      by (rule cap_capChunksPerDocument) simp
    ultimately show ?thesis using capped(1) by simp
  qed
qed


subsection \<open>The example store\<close>

lemma deepnet_scores:
  "keywordScore deepnetQuery ''deepnet is a network'' = 1 / 4"
  "keywordScore deepnetQuery ''it has layers'' = 0"
  "keywordScore deepnetQuery ''training deepnet takes days'' = 1 / 4"
  by code_simp+

lemma deepnet_documents: "listRagDocuments deepnetEnv ''ns'' = [deepnetDocument]"
  by (simp add: listRagDocuments_def deepnetEnv_def deepnetDocument_def exampleDocument_def)

lemma deepnet_targets:
  "map fileName (slice (filter (\<lambda>doc. sourceRole_d doc = Publication) [deepnetDocument]) 0 4)
     = [''deepnet.pdf'']"
  by (simp add: deepnetDocument_def exampleDocument_def slice_def)

lemma deepnet_strict_1:
  "retrieveRelevantChunks deepnetEnv (strictParams ''ns'' deepnetQuery 1 ''deepnet.pdf'')
     = [deepnetChunk1, deepnetChunk3]"
  by (simp add: retrieveRelevantChunks_def candidateChunks_def strictParams_def deepnetEnv_def
        deepnetChunk1_def deepnetChunk2_def deepnetChunk3_def exampleChunk_def Let_def
        chunkScore_def deepnet_scores sortByScoreDesc_def truthy_def)

lemma deepnet_strict_5:
  "retrieveRelevantChunks deepnetEnv (strictParams ''ns'' deepnetQuery 5 ''deepnet.pdf'')
     = [deepnetChunk1, deepnetChunk3, deepnetChunk2]"
  by (simp add: retrieveRelevantChunks_def candidateChunks_def strictParams_def deepnetEnv_def
        deepnetChunk1_def deepnetChunk2_def deepnetChunk3_def exampleChunk_def Let_def
        chunkScore_def deepnet_scores sortByScoreDesc_def truthy_def)

lemma deepnet_context_1:
  "retrieveIntentContext deepnetEnv ''ns'' deepnetQuery 1 =
     \<lparr> intent = paper_specific, chunks_i = [deepnetChunk1, deepnetChunk3],
       mentionedDocuments = [deepnetDocument], targetDocumentNames = [''deepnet.pdf''],
       retrievalNotes = [''paper_specific hard filter applied: deepnet.pdf''] \<rparr>"
  unfolding retrieveIntentContext_def Let_def deepnet_documents deepnet_mentioned deepnet_intent
    deepnet_targets
  by (simp add: deepnet_strict_1 slice_def)

lemma deepnet_context_5:
  "retrieveIntentContext deepnetEnv ''ns'' deepnetQuery 5 =
     \<lparr> intent = paper_specific, chunks_i = [deepnetChunk1, deepnetChunk3, deepnetChunk2],
       mentionedDocuments = [deepnetDocument], targetDocumentNames = [''deepnet.pdf''],
       retrievalNotes = [''paper_specific hard filter applied: deepnet.pdf''] \<rparr>"
  unfolding retrieveIntentContext_def Let_def deepnet_documents deepnet_mentioned deepnet_intent
    deepnet_targets
  by (simp add: deepnet_strict_5 slice_def)

text \<open>
  C6, as stated: for every \<open>topK\<close> of at least 1 the returned list has at most \<open>topK\<close>
  chunks. With \<open>topK = 1\<close> the \<open>paper_specific\<close> hard filter asks the store for
  \<open>max 2 topK\<close> chunks and returns two.
\<close>

theorem retrieval_length_counterexample:
  "(1::int) \<le> 1 \<and> \<not> int (length (chunks_i (retrieveIntentContext deepnetEnv ''ns'' deepnetQuery 1))) \<le> 1"
  by (simp add: deepnet_context_1)

theorem retrieval_length_bound_witness:
  "(1::int) \<le> 5
   \<and> int (length (chunks_i (retrieveIntentContext deepnetEnv ''ns'' deepnetQuery 5))) \<le> max 2 5
   \<and> intent (retrieveIntentContext deepnetEnv ''ns'' deepnetQuery 5) = paper_specific"
  using retrieval_length_bound[of 5 deepnetEnv "''ns''" deepnetQuery]
  by (simp add: deepnet_context_5)

text \<open>
  C2, as stated: no retrieval returns more than 2 chunks of one document. With
  \<open>topK = 5\<close> the \<open>paper_specific\<close> hard filter caps at \<open>max 2 (min 4 topK) = 4\<close> and
  returns the three chunks of the one target document.
\<close>

theorem retrieval_document_cap_counterexample:
  "\<not> length (chunksOfDocument ''d1''
        (chunks_i (retrieveIntentContext deepnetEnv ''ns'' deepnetQuery 5))) \<le> 2"
  by (simp add: deepnet_context_5 chunksOfDocument_def deepnetChunk1_def deepnetChunk2_def
      deepnetChunk3_def exampleChunk_def)

theorem retrieval_document_cap_witness:
  "retrievalNotes (retrieveIntentContext deepnetEnv ''ns'' deepnetQuery 5)
     \<noteq> [fallbackNote (intent (retrieveIntentContext deepnetEnv ''ns'' deepnetQuery 5))]
   \<and> intent (retrieveIntentContext deepnetEnv ''ns'' deepnetQuery 5) = paper_specific
   \<and> int (length (chunksOfDocument ''d1''
        (chunks_i (retrieveIntentContext deepnetEnv ''ns'' deepnetQuery 5)))) \<le> 4"
proof -
  have n: "retrievalNotes (retrieveIntentContext deepnetEnv ''ns'' deepnetQuery 5)
     \<noteq> [fallbackNote (intent (retrieveIntentContext deepnetEnv ''ns'' deepnetQuery 5))]"
    by (simp add: deepnet_context_5 fallbackNote_def)
  from retrieval_document_cap[OF n, of "''d1''"] n show ?thesis
    by (simp add: deepnet_context_5)
qed

theorem paper_specific_hard_filter_witness:
  "intent (retrieveIntentContext deepnetEnv ''ns'' deepnetQuery 5) = paper_specific
   \<and> chunks_i (retrieveIntentContext deepnetEnv ''ns'' deepnetQuery 5) \<noteq> []
   \<and> list_all (\<lambda>c. sourceName c = ''deepnet.pdf'' \<and> sourceRole c = Publication \<and> \<not> isRedundant c)
         (chunks_i (retrieveIntentContext deepnetEnv ''ns'' deepnetQuery 5))"
proof -
  have i: "intent (retrieveIntentContext deepnetEnv ''ns'' deepnetQuery 5) = paper_specific"
    by (simp add: deepnet_context_5)
  from paper_specific_hard_filter[OF i]
  obtain doc :: RagDocument where t: "targetDocumentNames (retrieveIntentContext deepnetEnv ''ns'' deepnetQuery 5)
                        = [fileName doc]"
    and c: "\<forall>c \<in> set (chunks_i (retrieveIntentContext deepnetEnv ''ns'' deepnetQuery 5)).
               c \<in> set (chunks (store deepnetEnv)) \<and> ragId c = ''ns'' \<and> sourceName c = fileName doc
               \<and> sourceRole c = Publication \<and> \<not> isRedundant c"
    by blast
  from t have "fileName doc = ''deepnet.pdf''" by (simp add: deepnet_context_5)
  with c i show ?thesis by (simp add: deepnet_context_5 list_all_iff)
qed

section \<open>Properties of the redundancy engine\<close>

lemma hashOrCompute_stored:
  assumes "textHash c' = Some (hashOrCompute sha1 c)" "text_c c' = text_c c"
  shows "hashOrCompute sha1 c' = hashOrCompute sha1 c"
  using assms by (auto simp: hashOrCompute_def truthy_def split: option.splits)

lemma hashOrCompute_storeHash [simp]:
  "hashOrCompute sha1 (storeHash sha1 c) = hashOrCompute sha1 c"
  by (rule hashOrCompute_stored) (simp_all add: storeHash_def)

lemma storeHash_idem [simp]: "storeHash sha1 (storeHash sha1 c) = storeHash sha1 c"
  using hashOrCompute_storeHash[of sha1 c] by (simp add: storeHash_def)

lemma bucketStep_storeHash: "bucketStep sha1 (storeHash sha1 p) = bucketStep sha1 p"
proof -
  have "(storeHash sha1 p)\<lparr>textHash := Some (hashOrCompute sha1 p)\<rparr>
        = p\<lparr>textHash := Some (hashOrCompute sha1 p)\<rparr>"
    by (simp add: storeHash_def)
  then show ?thesis unfolding bucketStep_def Let_def hashOrCompute_storeHash by simp
qed

lemma publicationByHash_storeHash:
  "publicationByHash sha1 (map (storeHash sha1) ps) = publicationByHash sha1 ps"
  unfolding publicationByHash_def fold_map
  by (simp add: o_def bucketStep_storeHash)

lemma resetThesisChunk_decide:
  "resetThesisChunk sha1 (decideRedundancy cfg ps byHash (resetThesisChunk sha1 t))
   = resetThesisChunk sha1 t"
proof -
  define b where "b = resetThesisChunk sha1 t"
  have h: "hashOrCompute sha1 b = hashOrCompute sha1 t"
    unfolding b_def by (rule hashOrCompute_stored) (simp_all add: resetThesisChunk_def)
  have r: "resetThesisChunk sha1 b = b"
    using h by (simp add: resetThesisChunk_def b_def)
  have u: "resetThesisChunk sha1 (b\<lparr>isRedundant := x, redundantOf := y, redundancyScore := z\<rparr>) = b"
    for x y z
  proof -
    have "hashOrCompute sha1 (b\<lparr>isRedundant := x, redundantOf := y, redundancyScore := z\<rparr>)
          = hashOrCompute sha1 b"
      by (simp add: hashOrCompute_def)
    then show ?thesis using h by (simp add: resetThesisChunk_def b_def)
  qed
  show ?thesis unfolding b_def[symmetric] decideRedundancy_def
    by (simp add: r u split: list.splits option.splits prod.splits)
qed

lemma annotateThesisChunk_idem:
  "annotateThesisChunk sha1 cfg ps byHash (annotateThesisChunk sha1 cfg ps byHash t)
   = annotateThesisChunk sha1 cfg ps byHash t"
  by (simp add: annotateThesisChunk_def resetThesisChunk_decide)

lemma decideRedundancy_frame:
  "ragId (decideRedundancy cfg ps byHash t) = ragId t
   \<and> sourceRole (decideRedundancy cfg ps byHash t) = sourceRole t
   \<and> (decideRedundancy cfg ps byHash t)\<lparr>isRedundant := x, redundantOf := y, redundancyScore := z\<rparr>
       = t\<lparr>isRedundant := x, redundantOf := y, redundancyScore := z\<rparr>"
  by (simp add: decideRedundancy_def split: list.splits option.splits prod.splits)

lemma annotateThesisChunk_role:
  "isThesisOf r (annotateThesisChunk sha1 cfg ps byHash t) = isThesisOf r t"
  "isPublicationOf r (annotateThesisChunk sha1 cfg ps byHash t) = isPublicationOf r t"
  using decideRedundancy_frame[of cfg ps byHash "resetThesisChunk sha1 t"]
  by (simp_all add: annotateThesisChunk_def isThesisOf_def isPublicationOf_def resetThesisChunk_def)

lemma storeHash_role:
  "isThesisOf r (storeHash sha1 c) = isThesisOf r c"
  "isPublicationOf r (storeHash sha1 c) = isPublicationOf r c"
  by (simp_all add: storeHash_def isThesisOf_def isPublicationOf_def)

lemma annotate_eq:
  "annotateThesisRedundancy sha1 cfg s r =
     (if filter (isThesisOf r) (chunks s) = [] then s
      else s\<lparr>chunks := map (annotateChunk sha1 cfg r (filter (isPublicationOf r) (chunks s))) (chunks s)\<rparr>)"
  unfolding annotateThesisRedundancy_def Let_def by simp

lemma annotateChunk_role:
  "isThesisOf r (annotateChunk sha1 cfg r pubs c) = isThesisOf r c"
  "isPublicationOf r (annotateChunk sha1 cfg r pubs c) = isPublicationOf r c"
  by (simp_all add: annotateChunk_def annotateThesisChunk_role storeHash_role)

lemma filter_map_annotate:
  "filter (isThesisOf r) (map (annotateChunk sha1 cfg r pubs) cs)
     = map (annotateChunk sha1 cfg r pubs) (filter (isThesisOf r) cs)"
  "filter (isPublicationOf r) (map (annotateChunk sha1 cfg r pubs) cs)
     = map (storeHash sha1) (filter (isPublicationOf r) cs)"
  by (induction cs) (simp_all add: annotateChunk_role, simp_all add: annotateChunk_def)

lemma annotateChunk_idem:
  "annotateChunk sha1 cfg r (map (storeHash sha1) pubs) (annotateChunk sha1 cfg r pubs c)
     = annotateChunk sha1 cfg r pubs c"
proof -
  have e: "annotateChunk sha1 cfg r (map (storeHash sha1) pubs) x = annotateChunk sha1 cfg r pubs x" for x
    by (simp add: annotateChunk_def publicationByHash_storeHash o_def)
  have "annotateChunk sha1 cfg r pubs (annotateChunk sha1 cfg r pubs c)
        = annotateChunk sha1 cfg r pubs c"
  proof (cases "isPublicationOf r c")
    case True
    then show ?thesis by (simp add: annotateChunk_def storeHash_role)
  next
    case np: False
    show ?thesis
    proof (cases "isThesisOf r c")
      case True
      with np show ?thesis
        by (simp add: annotateChunk_def annotateThesisChunk_role annotateThesisChunk_idem)
    next
      case False
      with np show ?thesis by (simp add: annotateChunk_def)
    qed
  qed
  then show ?thesis by (simp add: e)
qed

text \<open>
  C9. Running the redundancy engine a second time on the store it returned changes
  nothing: the two stores are equal, so every chunk keeps its \<open>isRedundant\<close>,
  \<open>redundantOf\<close> and \<open>redundancyScore\<close>.
\<close>

theorem annotateThesisRedundancy_idempotent:
  "annotateThesisRedundancy sha1 cfg (annotateThesisRedundancy sha1 cfg s r) r
     = annotateThesisRedundancy sha1 cfg s r"
proof (cases "filter (isThesisOf r) (chunks s) = []")
  case True
  then show ?thesis by (simp add: annotate_eq)
next
  case False
  then show ?thesis
    by (simp add: annotate_eq filter_map_annotate annotateChunk_idem o_def)
qed


lemma annotateThesisChunk_frame:
  "(annotateThesisChunk sha1 cfg ps byHash t)
     \<lparr>textHash := textHash t, isRedundant := isRedundant t, redundantOf := redundantOf t,
      redundancyScore := redundancyScore t\<rparr> = t"
  "textHash (annotateThesisChunk sha1 cfg ps byHash t) = Some (hashOrCompute sha1 t)"
  by (simp_all add: annotateThesisChunk_def decideRedundancy_def resetThesisChunk_def
      split: list.splits option.splits prod.splits)

lemma hashOrCompute_cases:
  "Some (hashOrCompute sha1 c) = textHash c
   \<or> (\<not> truthy (textHash c) \<and> hashOrCompute sha1 c = getTextHash sha1 (text_c c))"
  by (auto simp: hashOrCompute_def truthy_def split: option.splits)

lemma frameOf_refl: "frameOf sha1 r c c"
  by (simp add: frameOf_def)

lemma frameOf_annotateChunk: "frameOf sha1 r c (annotateChunk sha1 cfg r pubs c)"
proof (cases "isPublicationOf r c")
  case True
  then have "\<not> isThesisOf r c" by (auto simp: isPublicationOf_def isThesisOf_def)
  with True hashOrCompute_cases[of sha1 c] show ?thesis
    by (auto simp: frameOf_def annotateChunk_def storeHash_def redundancyFields_def)
next
  case np: False
  show ?thesis
  proof (cases "isThesisOf r c")
    case True
    with np hashOrCompute_cases[of sha1 c] show ?thesis
      by (auto simp: frameOf_def annotateChunk_def annotateThesisChunk_frame)
  next
    case False
    with np show ?thesis by (simp add: frameOf_def annotateChunk_def)
  qed
qed

text \<open>
  C10. A run of the redundancy engine on the namespace \<open>r\<close> leaves the documents as they
  are and changes of a chunk only the hash and the redundancy fields: the redundancy
  fields only of a thesis chunk of \<open>r\<close>, nothing of a chunk that is neither a publication
  nor a thesis chunk of \<open>r\<close>, and the hash only from a missing one to the computed one.
\<close>

theorem annotateThesisRedundancy_frame:
  "documents (annotateThesisRedundancy sha1 cfg s r) = documents s
   \<and> list_all2 (frameOf sha1 r) (chunks s) (chunks (annotateThesisRedundancy sha1 cfg s r))"
proof (cases "filter (isThesisOf r) (chunks s) = []")
  case True
  then show ?thesis by (simp add: annotate_eq list_all2_same frameOf_refl)
next
  case False
  then show ?thesis
    by (simp add: annotate_eq list_all2_map2 list_all2_same frameOf_annotateChunk)
qed


lemma bestMatchStep_eq:
  "bestMatchStep cfg t p best =
     (if qualifies cfg t p
      then (case best of
              None \<Rightarrow> Some (p, combinedSimilarity t p)
            | Some (b, s) \<Rightarrow> if combinedSimilarity t p > s then Some (p, combinedSimilarity t p) else best)
      else best)"
  by (auto simp: bestMatchStep_def qualifies_def combinedSimilarity_def pairCosine_def Let_def
      split: option.splits prod.splits)

lemma bestInv_step:
  assumes "bestInv cfg t seen best"
  shows "bestInv cfg t (seen @ [p]) (bestMatchStep cfg t p best)"
proof (cases best)
  case None
  with assms show ?thesis
    by (auto simp: bestInv_def bestMatchStep_eq list_ex_iff list_all_iff)
next
  case (Some bs)
  obtain b s where bs: "bs = (b, s)" by (cases bs)
  with Some assms show ?thesis
    by (auto simp: bestInv_def bestMatchStep_eq list_ex_iff list_all_iff)
qed

lemma bestInv_fold:
  "bestInv cfg t seen best \<Longrightarrow> bestInv cfg t (seen @ ps) (fold (bestMatchStep cfg t) ps best)"
proof (induction ps arbitrary: seen best)
  case Nil
  then show ?case by simp
next
  case (Cons p ps)
  from Cons.IH[OF bestInv_step[OF Cons.prems, of p]] show ?case by simp
qed

lemma findBestMatch_inv: "bestInv cfg t ps (findBestMatch cfg t ps)"
  using bestInv_fold[of cfg t "[]" None ps] by (simp add: findBestMatch_def bestInv_def)

lemma qualifies_reset:
  "qualifies cfg (resetThesisChunk sha1 t) p = qualifies cfg t p"
  "combinedSimilarity (resetThesisChunk sha1 t) p = combinedSimilarity t p"
  by (simp_all add: qualifies_def combinedSimilarity_def pairCosine_def resetThesisChunk_def)

text \<open>
  C3, amended: a publication chunk qualifies when the lexical score reaches the lexical
  threshold and the cosine reaches the cosine threshold, where the cosine counts as 0
  unless both chunks have an embedding (so with a positive cosine threshold a pair that
  lacks an embedding never qualifies); the search returns nothing exactly when no
  publication chunk qualifies, otherwise a qualifying chunk whose combined similarity
  is the highest among the qualifying ones; when nothing qualifies and no bucket holds
  the hash, the thesis chunk stays non-redundant.
\<close>

theorem near_duplicate_search:
  "(findBestMatch cfg t ps = None \<longleftrightarrow> \<not> list_ex (qualifies cfg t) ps)
   \<and> (\<forall>p s. findBestMatch cfg t ps = Some (p, s) \<longrightarrow>
         p \<in> set ps \<and> qualifies cfg t p \<and> s = combinedSimilarity t p
         \<and> (\<forall>q \<in> set ps. qualifies cfg t q \<longrightarrow> combinedSimilarity t q \<le> s))
   \<and> ((embedding t = None \<or> embedding p' = None) \<and> 0 < cosineThreshold cfg
         \<longrightarrow> \<not> qualifies cfg t p')
   \<and> (ps \<noteq> [] \<and> byHash (hashOrCompute sha1 t) = [] \<and> \<not> list_ex (qualifies cfg t) ps
         \<longrightarrow> redundancyFields (annotateThesisChunk sha1 cfg ps byHash t) = (False, None, None))"
proof -
  have i: "bestInv cfg t ps (findBestMatch cfg t ps)" by (rule findBestMatch_inv)
  have a: "findBestMatch cfg t ps = None \<longleftrightarrow> \<not> list_ex (qualifies cfg t) ps"
    using i by (auto simp: bestInv_def list_ex_iff split: option.splits)
  have b: "\<forall>p s. findBestMatch cfg t ps = Some (p, s) \<longrightarrow>
         p \<in> set ps \<and> qualifies cfg t p \<and> s = combinedSimilarity t p
         \<and> (\<forall>q \<in> set ps. qualifies cfg t q \<longrightarrow> combinedSimilarity t q \<le> s)"
    using i by (auto simp: bestInv_def list_all_iff split: option.splits)
  have c: "(embedding t = None \<or> embedding p' = None) \<and> 0 < cosineThreshold cfg
         \<longrightarrow> \<not> qualifies cfg t p'"
    by (auto simp: qualifies_def pairCosine_def split: option.splits)
  have d: "ps \<noteq> [] \<and> byHash (hashOrCompute sha1 t) = [] \<and> \<not> list_ex (qualifies cfg t) ps
         \<longrightarrow> redundancyFields (annotateThesisChunk sha1 cfg ps byHash t) = (False, None, None)"
  proof (intro impI, elim conjE)
    assume n: "ps \<noteq> []" and h: "byHash (hashOrCompute sha1 t) = []"
      and q: "\<not> list_ex (qualifies cfg t) ps"
    have "bestInv cfg (resetThesisChunk sha1 t) ps (findBestMatch cfg (resetThesisChunk sha1 t) ps)"
      by (rule findBestMatch_inv)
    with q have "findBestMatch cfg (resetThesisChunk sha1 t) ps = None"
      by (auto simp: bestInv_def qualifies_reset list_ex_iff split: option.splits)
    with n h show "redundancyFields (annotateThesisChunk sha1 cfg ps byHash t) = (False, None, None)"
      by (simp add: annotateThesisChunk_def decideRedundancy_def redundancyFields_def
          resetThesisChunk_def)
  qed
  from a b c d show ?thesis by blast
qed


lemma bucket_fold:
  "fold (bucketStep sha1) ps m h
     = m h @ map (storeHash sha1) (filter (\<lambda>p. hashOrCompute sha1 p = h) ps)"
proof (induction ps arbitrary: m)
  case Nil
  show ?case by simp
next
  case (Cons p ps)
  show ?case unfolding fold_simps o_apply Cons.IH
    by (simp add: bucketStep_def Let_def storeHash_def)
qed

lemma publicationByHash_bucket:
  "publicationByHash sha1 ps h = map (storeHash sha1) (filter (\<lambda>p. hashOrCompute sha1 p = h) ps)"
  by (simp add: publicationByHash_def bucket_fold)

lemma find_filter:
  "List.find P xs = Some x \<Longrightarrow> \<exists>rest. filter P xs = x # rest"
  by (induction xs) (auto split: if_splits)

lemma set_newSet_fold: "set (fold (\<lambda>x s. if x \<in> set s then s else s @ [x]) xs acc) = set acc \<union> set xs"
  by (induction xs arbitrary: acc) auto

lemma set_newSet [simp]: "set (newSet xs) = set xs"
  by (simp add: newSet_def set_newSet_fold)

lemma novelSentenceRatio_same: "novelSentenceRatio x x = 0"
proof -
  have "filter (\<lambda>sentence. sentence \<notin> set (splitSentences x)) (splitSentences x) = []"
    by (simp add: filter_empty_conv)
  then show ?thesis by (simp add: novelSentenceRatio_def Let_def)
qed

text \<open>
  C4, amended: when \<open>P\<close> is the first publication chunk of the namespace, in store
  order, with the hash of the thesis chunk \<open>T\<close>, then \<open>T\<close> ends up redundant against \<open>P\<close>
  with score 1 if the novelty ratio of \<open>T\<close> against \<open>P\<close> is below the threshold, and
  non-redundant otherwise, whatever a near-duplicate search would find; in particular
  \<open>T\<close> is redundant with score 1 when its text is the text of \<open>P\<close> and the threshold
  is positive.
\<close>

theorem exact_match_first:
  assumes i: "i < length (chunks s)"
    and t: "isThesisOf r (chunks s ! i)"
    and f: "List.find (\<lambda>p. isPublicationOf r p
                 \<and> hashOrCompute sha1 p = hashOrCompute sha1 (chunks s ! i)) (chunks s) = Some P"
  shows "redundancyFields (chunks (annotateThesisRedundancy sha1 cfg s r) ! i)
           = (if novelSentenceRatio (text_c (chunks s ! i)) (text_c P) < novelSentenceThreshold cfg
              then (True, Some (id_c P), Some 1) else (False, None, None))
         \<and> (text_c (chunks s ! i) = text_c P \<and> 0 < novelSentenceThreshold cfg
              \<longrightarrow> redundancyFields (chunks (annotateThesisRedundancy sha1 cfg s r) ! i)
                    = (True, Some (id_c P), Some 1))"
proof -
  define T where "T = chunks s ! i"
  define pubs where "pubs = filter (isPublicationOf r) (chunks s)"
  have tin: "T \<in> set (chunks s)" using i by (simp add: T_def)
  with t have ne: "filter (isThesisOf r) (chunks s) \<noteq> []"
    by (auto simp: filter_empty_conv T_def)
  have np: "\<not> isPublicationOf r T"
    using t by (auto simp: isThesisOf_def isPublicationOf_def T_def)
  from find_filter[OF f] obtain rest where
    "filter (\<lambda>p. isPublicationOf r p \<and> hashOrCompute sha1 p = hashOrCompute sha1 T) (chunks s)
       = P # rest" by (auto simp: T_def)
  then have b: "filter (\<lambda>p. hashOrCompute sha1 p = hashOrCompute sha1 T) pubs = P # rest"
    by (simp add: pubs_def conj_commute)
  then have pne: "pubs \<noteq> []" by auto
  have bucket: "publicationByHash sha1 pubs (hashOrCompute sha1 T)
                  = storeHash sha1 P # map (storeHash sha1) rest"
    by (simp add: publicationByHash_bucket b)
  have a: "chunks (annotateThesisRedundancy sha1 cfg s r) ! i
           = annotateThesisChunk sha1 cfg (map (storeHash sha1) pubs) (publicationByHash sha1 pubs) T"
    using ne i np t by (simp add: annotate_eq annotateChunk_def T_def pubs_def)
  have main: "redundancyFields (annotateThesisChunk sha1 cfg (map (storeHash sha1) pubs)
                  (publicationByHash sha1 pubs) T)
           = (if novelSentenceRatio (text_c T) (text_c P) < novelSentenceThreshold cfg
              then (True, Some (id_c P), Some 1) else (False, None, None))"
    using pne bucket
    by (simp add: annotateThesisChunk_def decideRedundancy_def resetThesisChunk_def
        redundancyFields_def storeHash_def)
  show ?thesis unfolding a T_def[symmetric] main
    by (simp add: novelSentenceRatio_same)
qed


lemma dl_scores:
  "lexicalOverlapScore ''deep learning'' ''deep learning!'' = 1"
  "novelSentenceRatio ''deep learning'' ''deep learning!'' = 0"
  by code_simp+

lemma dl_hashes:
  "getTextHash exampleSha1 ''deep learning'' = ''871183362fa6570a33c0f3a3908dc58d813223a6''"
  "getTextHash exampleSha1 ''deep learning!'' = ''de628af64271730030d01ba6d9616da351ef4faa''"
  by code_simp+

lemma copy_scores:
  "novelSentenceRatio twoLines oneLine = 1"
  "novelSentenceRatio twoLines twoLines = 0"
  by code_simp+

lemma copy_hashes:
  "getTextHash exampleSha1 twoLines = ''00818aa93c29c506d86e9386e7509667ff7c623e''"
  "getTextHash exampleSha1 oneLine = ''00818aa93c29c506d86e9386e7509667ff7c623e''"
  by code_simp+

lemmas example_defs = exampleChunk_def isPublicationOf_def isThesisOf_def storeHash_def
  hashOrCompute_def truthy_def defaultDedupConfig_def getDedupConfig_def clamp01_def

lemma dl_annotated:
  "chunks (annotateThesisRedundancy exampleSha1 defaultDedupConfig dlStore ''ns'')
     = [dlPublication, dlThesis]"
  by (simp add: annotateThesisRedundancy_def annotateChunk_def annotateThesisChunk_def
      resetThesisChunk_def decideRedundancy_def publicationByHash_def bucketStep_def
      findBestMatch_def bestMatchStep_def dlStore_def dlPublication_def dlThesis_def
      example_defs dl_scores Let_def)

text \<open>
  C3, as stated: without an embedding on either side the cosine condition does not
  disqualify a pair. The thesis chunk \<open>deep learning\<close> and the publication chunk
  \<open>deep learning!\<close> have different hashes, no embeddings, lexical score 1 and novelty
  ratio 0: the search keeps nothing and the thesis chunk stays non-redundant.
\<close>

theorem near_duplicate_counterexample:
  "isPublicationOf ''ns'' dlPublication \<and> isThesisOf ''ns'' dlThesis
   \<and> hashOrCompute exampleSha1 dlThesis \<noteq> hashOrCompute exampleSha1 dlPublication
   \<and> embedding dlThesis = None \<and> embedding dlPublication = None
   \<and> lexicalOverlapScore (text_c dlThesis) (text_c dlPublication)
        \<ge> lexicalThreshold defaultDedupConfig
   \<and> novelSentenceRatio (text_c dlThesis) (text_c dlPublication)
        < novelSentenceThreshold defaultDedupConfig
   \<and> findBestMatch defaultDedupConfig dlThesis [dlPublication] = None
   \<and> redundancyFields (chunks (annotateThesisRedundancy exampleSha1 defaultDedupConfig
                                 dlStore ''ns'') ! 1) = (False, None, None)"
  unfolding dl_annotated
  by (simp add: dlPublication_def dlThesis_def example_defs dl_scores findBestMatch_def
      bestMatchStep_def redundancyFields_def Let_def)

lemma copy_annotated:
  "chunks (annotateThesisRedundancy exampleSha1 defaultDedupConfig copyStore ''ns'')
     = [joinedPublication, samePublication, thesisCopy]"
  by (simp add: annotateThesisRedundancy_def annotateChunk_def annotateThesisChunk_def
      resetThesisChunk_def decideRedundancy_def publicationByHash_def bucketStep_def
      copyStore_def joinedPublication_def samePublication_def thesisCopy_def
      example_defs copy_scores Let_def)

text \<open>
  C4, as stated: a thesis chunk that shares its hash with some publication chunk \<open>P\<close>
  and has a novelty ratio against \<open>P\<close> below the threshold is redundant with score 1.
  Here the thesis chunk has the very text of the second publication chunk, but an
  earlier publication chunk has the same normalized text on one line: the novelty ratio
  is taken against that one, is 1, and the thesis chunk stays non-redundant.
\<close>

theorem exact_match_counterexample:
  "isPublicationOf ''ns'' samePublication \<and> samePublication \<in> set (chunks copyStore)
   \<and> isThesisOf ''ns'' thesisCopy \<and> chunks copyStore ! 2 = thesisCopy
   \<and> hashOrCompute exampleSha1 thesisCopy = hashOrCompute exampleSha1 samePublication
   \<and> getTextHash exampleSha1 (text_c thesisCopy) = getTextHash exampleSha1 (text_c samePublication)
   \<and> text_c thesisCopy = text_c samePublication
   \<and> novelSentenceRatio (text_c thesisCopy) (text_c samePublication)
        < novelSentenceThreshold defaultDedupConfig
   \<and> redundancyFields (chunks (annotateThesisRedundancy exampleSha1 defaultDedupConfig
                                 copyStore ''ns'') ! 2) = (False, None, None)"
  unfolding copy_annotated
  by (simp add: copyStore_def joinedPublication_def samePublication_def thesisCopy_def
      example_defs copy_scores redundancyFields_def)


lemma cosine_unit: "cosineSimilarity [1, 0] [1, 0] = 1"
  by (simp add: cosineSimilarity_def)

lemma emb_best:
  "findBestMatch defaultDedupConfig embThesis [embPublication] = Some (embPublication, 1)"
  by (simp add: findBestMatch_def bestMatchStep_def embThesis_def embPublication_def
      dlThesis_def dlPublication_def example_defs dl_scores cosine_unit Let_def)

theorem near_duplicate_search_witness:
  "findBestMatch defaultDedupConfig embThesis [embPublication] = Some (embPublication, 1)
   \<and> list_ex (qualifies defaultDedupConfig embThesis) [embPublication]
   \<and> qualifies defaultDedupConfig embThesis embPublication
   \<and> combinedSimilarity embThesis embPublication = 1
   \<and> embedding dlThesis = None \<and> 0 < cosineThreshold defaultDedupConfig
   \<and> \<not> qualifies defaultDedupConfig dlThesis dlPublication
   \<and> \<not> list_ex (qualifies defaultDedupConfig dlThesis) [dlPublication]
   \<and> redundancyFields (annotateThesisChunk exampleSha1 defaultDedupConfig [dlPublication]
                         (\<lambda>_. []) dlThesis) = (False, None, None)"
proof -
  have e: "embedding dlThesis = None" "0 < cosineThreshold defaultDedupConfig"
    by (simp_all add: dlThesis_def example_defs)
  note a = near_duplicate_search[of defaultDedupConfig embThesis "[embPublication]" dlPublication
      "\<lambda>_. []" exampleSha1]
  note b = near_duplicate_search[of defaultDedupConfig dlThesis "[dlPublication]" dlPublication
      "\<lambda>_. []" exampleSha1]
  from b e have nq: "\<not> qualifies defaultDedupConfig dlThesis dlPublication" by blast
  then have nl: "\<not> list_ex (qualifies defaultDedupConfig dlThesis) [dlPublication]" by simp
  with b have r: "redundancyFields (annotateThesisChunk exampleSha1 defaultDedupConfig [dlPublication]
                         (\<lambda>_. []) dlThesis) = (False, None, None)" by simp
  from a emb_best have "qualifies defaultDedupConfig embThesis embPublication
      \<and> 1 = combinedSimilarity embThesis embPublication" by blast
  with emb_best e nq nl r show ?thesis by simp
qed

lemma swapped_find:
  "List.find (\<lambda>p. isPublicationOf ''ns'' p
       \<and> hashOrCompute exampleSha1 p = hashOrCompute exampleSha1 (chunks copyStoreSwapped ! 2))
     (chunks copyStoreSwapped) = Some samePublication"
  by (simp add: copyStoreSwapped_def samePublication_def joinedPublication_def thesisCopy_def
      example_defs)

theorem exact_match_first_witness:
  "2 < length (chunks copyStoreSwapped)
   \<and> isThesisOf ''ns'' (chunks copyStoreSwapped ! 2)
   \<and> List.find (\<lambda>p. isPublicationOf ''ns'' p
          \<and> hashOrCompute exampleSha1 p = hashOrCompute exampleSha1 (chunks copyStoreSwapped ! 2))
        (chunks copyStoreSwapped) = Some samePublication
   \<and> redundancyFields (chunks (annotateThesisRedundancy exampleSha1 defaultDedupConfig
                                 copyStoreSwapped ''ns'') ! 2) = (True, Some ''p2'', Some 1)"
proof -
  have i: "2 < length (chunks copyStoreSwapped)" by (simp add: copyStoreSwapped_def)
  have t: "isThesisOf ''ns'' (chunks copyStoreSwapped ! 2)"
    by (simp add: copyStoreSwapped_def thesisCopy_def example_defs)
  have n: "novelSentenceRatio (text_c (chunks copyStoreSwapped ! 2)) (text_c samePublication)
             < novelSentenceThreshold defaultDedupConfig"
    by (simp add: copyStoreSwapped_def thesisCopy_def samePublication_def example_defs copy_scores)
  have p: "id_c samePublication = ''p2''" by (simp add: samePublication_def example_defs)
  from exact_match_first[OF i t swapped_find, of defaultDedupConfig] n p i t swapped_find
  show ?thesis by simp
qed

theorem annotateThesisRedundancy_frame_witness:
  "documents (annotateThesisRedundancy exampleSha1 defaultDedupConfig frameStore ''ns'')
     = documents frameStore
   \<and> \<not> isThesisOf ''ns'' webChunk \<and> \<not> isPublicationOf ''ns'' webChunk
   \<and> \<not> isThesisOf ''ns'' foreignThesis \<and> \<not> isPublicationOf ''ns'' foreignThesis
   \<and> isPublicationOf ''ns'' samePublication \<and> isThesisOf ''ns'' thesisCopy
   \<and> chunks (annotateThesisRedundancy exampleSha1 defaultDedupConfig frameStore ''ns'') ! 2 = webChunk
   \<and> chunks (annotateThesisRedundancy exampleSha1 defaultDedupConfig frameStore ''ns'') ! 3
       = foreignThesis
   \<and> redundancyFields (chunks (annotateThesisRedundancy exampleSha1 defaultDedupConfig
                                 frameStore ''ns'') ! 0) = redundancyFields samePublication
   \<and> redundancyFields (chunks (annotateThesisRedundancy exampleSha1 defaultDedupConfig
                                 frameStore ''ns'') ! 1) \<noteq> redundancyFields thesisCopy"
proof -
  let ?s' = "annotateThesisRedundancy exampleSha1 defaultDedupConfig frameStore ''ns''"
  from annotateThesisRedundancy_frame[of exampleSha1 defaultDedupConfig frameStore "''ns''"]
  have d: "documents ?s' = documents frameStore"
    and l: "list_all2 (frameOf exampleSha1 ''ns'') (chunks frameStore) (chunks ?s')" by simp_all
  have r: "\<not> isThesisOf ''ns'' webChunk" "\<not> isPublicationOf ''ns'' webChunk"
    "\<not> isThesisOf ''ns'' foreignThesis" "\<not> isPublicationOf ''ns'' foreignThesis"
    "isPublicationOf ''ns'' samePublication" "isThesisOf ''ns'' thesisCopy"
    "\<not> isThesisOf ''ns'' samePublication"
    by (simp_all add: webChunk_def foreignThesis_def samePublication_def thesisCopy_def example_defs)
  have n: "chunks frameStore ! 0 = samePublication" "chunks frameStore ! 2 = webChunk"
    "chunks frameStore ! 3 = foreignThesis" "length (chunks frameStore) = 4"
    by (simp_all add: frameStore_def)
  from list_all2_nthD[OF l, of 0] n r
  have c0: "redundancyFields (chunks ?s' ! 0) = redundancyFields samePublication"
    by (simp add: frameOf_def)
  from list_all2_nthD[OF l, of 2] n r have c2: "chunks ?s' ! 2 = webChunk"
    by (simp add: frameOf_def)
  from list_all2_nthD[OF l, of 3] n r have c3: "chunks ?s' ! 3 = foreignThesis"
    by (simp add: frameOf_def)
  have c1: "redundancyFields (chunks ?s' ! 1) \<noteq> redundancyFields thesisCopy"
    by (simp add: annotateThesisRedundancy_def annotateChunk_def annotateThesisChunk_def
      resetThesisChunk_def decideRedundancy_def publicationByHash_def bucketStep_def
      frameStore_def samePublication_def thesisCopy_def webChunk_def foreignThesis_def
      example_defs copy_scores redundancyFields_def Let_def)
  from d r c0 c1 c2 c3 show ?thesis by simp
qed

section \<open>Properties of the evidence contract enforcer\<close>

text \<open>
  C5. The final text is claimed to hold no marker outside the reference set. The global
  replace scans the answer once: in \<open>[P[P99]7]\<close> it removes the unknown \<open>[P99]\<close>, and the
  text around it closes up to \<open>[P7]\<close>, a marker of valid form that no reference has; it
  stays in the final text, before the appended blocks with the known \<open>[P1]\<close>.
\<close>

theorem enforce_leaves_unknown_marker:
  "map marker [deepnetReference] = [''P1'']
   \<and> responseText (enforceCitationContract deepnetQuery deepnetContext nestedAnswer
                     [deepnetReference])
       = ''DeepNet stacks layers [P7].'' @ lineFeed @ lineFeed
         @ ''Primary evidence: [P1]'' @ lineFeed @ lineFeed
         @ ''### Evidence Notes'' @ lineFeed
         @ ''- Evidence is restricted to the target paper: deepnet.pdf.'' @ lineFeed @ lineFeed
         @ ''### Evidence'' @ lineFeed
         @ ''- [P1] PAPER | deepnet.pdf | venue: N/A | year: N/A | chunk: c1''
   \<and> markerMatches (responseText (enforceCitationContract deepnetQuery deepnetContext
                                    nestedAnswer [deepnetReference]))
       = [''P7'', ''P1'', ''P1'']"
  by code_simp

end
